theory Spec2Isabelle
  imports Complex_Main
begin

section \<open>Chaosec: the traffic pattern engine of \<^verbatim>\<open>chaosec.py\<close>\<close>

text \<open>
  Python floats are modelled as real numbers, Python's unbounded integers as naturals,
  \<^verbatim>\<open>str\<close> and \<^verbatim>\<open>bytes\<close> as character lists. Every value the program obtains from
  outside (a draw of the random module, the clock, the outcome of a network call, the value
  of the global run flag that other threads write) is an input of the model.
\<close>

subsection \<open>Exceptions\<close>

datatype net_failure = Timeout | ConnectionRefused | ResolutionFailed | SendFailed

datatype py_exn =
    KeyError
  | AttributeError
  | ZeroDivisionError
  | ValueError
  | NetworkFailure net_failure
  | NoResolverConfiguration
  | SystemExit nat
  | KeyboardInterrupt

text \<open>
  \<^verbatim>\<open>except Exception\<close> catches the classes derived from \<^verbatim>\<open>Exception\<close>.
  \<^verbatim>\<open>SystemExit\<close> and \<^verbatim>\<open>KeyboardInterrupt\<close> derive from \<^verbatim>\<open>BaseException\<close> only.
  The failures of the socket, resolver and HTTP libraries (\<^verbatim>\<open>OSError\<close>,
  \<^verbatim>\<open>DNSException\<close>, \<^verbatim>\<open>RequestException\<close>) all derive from \<^verbatim>\<open>Exception\<close>, and so
  does \<^verbatim>\<open>NoResolverConfiguration\<close>, which the constructor of the resolver raises.
\<close>

fun derives_from_Exception :: "py_exn \<Rightarrow> bool" where
  "derives_from_Exception (SystemExit n) = False"
| "derives_from_Exception KeyboardInterrupt = False"
| "derives_from_Exception e = True"

subsection \<open>The pattern profile table\<close>

record profile =
  http_ratio :: real
  dns_ratio :: real
  tcp_ratio :: real
  udp_ratio :: real
  interval_min :: real
  interval_max :: real

definition TRAFFIC_PATTERNS :: "(string \<times> profile) list" where
  "TRAFFIC_PATTERNS =
    [(''browsing'',
        \<lparr>http_ratio = 6/10, dns_ratio = 3/10, tcp_ratio = 1/10, udp_ratio = 5/100,
         interval_min = 1, interval_max = 8\<rparr>),
     (''streaming'',
        \<lparr>http_ratio = 8/10, dns_ratio = 1/10, tcp_ratio = 5/100, udp_ratio = 2/10,
         interval_min = 5/10, interval_max = 2\<rparr>),
     (''gaming'',
        \<lparr>http_ratio = 2/10, dns_ratio = 1/10, tcp_ratio = 3/10, udp_ratio = 5/10,
         interval_min = 1/10, interval_max = 1\<rparr>),
     (''chaotic'',
        \<lparr>http_ratio = 1, dns_ratio = 1, tcp_ratio = 1, udp_ratio = 1,
         interval_min = 1/10, interval_max = 5/10\<rparr>)]"

text \<open>Subscription \<^verbatim>\<open>d[k]\<close> of a dictionary raises \<^verbatim>\<open>KeyError\<close> on a missing key.\<close>

definition getitem :: "(string \<times> 'v) list \<Rightarrow> string \<Rightarrow> py_exn + 'v" where
  "getitem d k = (case map_of d k of None \<Rightarrow> Inl KeyError | Some v \<Rightarrow> Inr v)"

definition pattern_names :: "string list" where
  "pattern_names = [''browsing'', ''streaming'', ''gaming'', ''chaotic'']"

definition ratios_in_unit_interval :: "profile \<Rightarrow> bool" where
  "ratios_in_unit_interval p =
    (0 \<le> http_ratio p \<and> http_ratio p \<le> 1 \<and> 0 \<le> dns_ratio p \<and> dns_ratio p \<le> 1 \<and>
     0 \<le> tcp_ratio p \<and> tcp_ratio p \<le> 1 \<and> 0 \<le> udp_ratio p \<and> udp_ratio p \<le> 1)"


subsection \<open>The tool object and the effects of a generator\<close>

type_synonym bytes = "char list"

datatype sock_kind = SOCK_STREAM | SOCK_DGRAM

datatype target = GenerateDns | GenerateHttp | GenerateTcp | GenerateUdp | PrintStats

text \<open>
  Every call that leaves the program is recorded, in order, when it is made (whether or
  not it then fails): sleeping, network calls, output, thread operations.
\<close>

datatype event =
    Sleep real
  | Resolve string string
  | HttpGet string string nat
  | HttpPost string string "(string \<times> string) list" nat
  | SocketCreate sock_kind
  | SetTimeout nat
  | Connect string nat
  | Send bytes
  | Recv nat
  | SendTo bytes string nat
  | Close
  | PrintBanner
  | LogStarting string real
  | LogInfo string
  | LogWarning string
  | LogError string
  | LogStats nat nat nat nat
  | ArgparseError string
  | ThreadStart target
  | Join target real

text \<open>
  \<^verbatim>\<open>self.stats\<close> is a dictionary with the four fixed keys \<^verbatim>\<open>dns, http, tcp, udp\<close>;
  no key is ever added or removed.
\<close>

record counters =
  dns :: nat
  http :: nat
  tcp :: nat
  udp :: nat

text \<open>The fields of \<^verbatim>\<open>ChaosecTool\<close>, and the record of the calls made so far.\<close>

record chaosec_tool =
  threads :: "target list"
  intensity :: real
  pattern :: string
  tor_mode :: bool
  stats :: counters
  effects :: "event list"

definition init_tool :: chaosec_tool where
  "init_tool =
    \<lparr>threads = [], intensity = 1, pattern = ''browsing'', tor_mode = False,
     stats = \<lparr>dns = 0, http = 0, tcp = 0, udp = 0\<rparr>, effects = []\<rparr>"

text \<open>
  How a block of statements ends: it runs to its end, it raises, or it never returns
  within the inputs given.
\<close>

datatype ctl = Completed | Raise py_exn | Blocked

definition emit :: "event \<Rightarrow> 'a chaosec_tool_scheme \<Rightarrow> 'a chaosec_tool_scheme" where
  "emit ev self = self\<lparr>effects := effects self @ [ev]\<rparr>"

text \<open>\<^verbatim>\<open>time.sleep\<close> raises \<^verbatim>\<open>ValueError\<close> on a negative length.\<close>

definition time_sleep :: "real \<Rightarrow> chaosec_tool \<Rightarrow> ctl \<times> chaosec_tool" where
  "time_sleep t self = (if t < 0 then (Raise ValueError, self) else (Completed, emit (Sleep t) self))"

text \<open>\<^verbatim>\<open>random.uniform(a, b)\<close> is \<^verbatim>\<open>a + (b - a) * random()\<close>.\<close>

definition uniform :: "real \<Rightarrow> real \<Rightarrow> real \<Rightarrow> real" where
  "uniform a b u = a + (b - a) * u"

text \<open>\<^verbatim>\<open>random.choice(seq)\<close> on a non-empty sequence, the draw \<open>k\<close> reduced below its length.\<close>

definition choice :: "'a list \<Rightarrow> nat \<Rightarrow> 'a" where
  "choice xs k = xs ! (k mod length xs)"

text \<open>\<^verbatim>\<open>str(n)\<close> of a non-negative integer.\<close>

fun str_nat :: "nat \<Rightarrow> string" where
  "str_nat n = (if n < 10 then [char_of (48 + n)] else str_nat (n div 10) @ [char_of (48 + n mod 10)])"

declare str_nat.simps [simp del]

text \<open>
  The pacing block that ends the \<^verbatim>\<open>try\<close> body of each of the four generators
  (the same statements in each): the two table lookups, the draw, the division by the
  intensity (\<^verbatim>\<open>ZeroDivisionError\<close> for a zero divisor), the Tor-mode floor and the sleep.
\<close>

definition tor_floor :: "bool \<Rightarrow> real \<Rightarrow> real" where
  "tor_floor tor sleep_time = (if tor \<and> sleep_time < 1 then max sleep_time 1 else sleep_time)"

definition pattern_based_timing :: "real \<Rightarrow> chaosec_tool \<Rightarrow> ctl \<times> chaosec_tool" where
  "pattern_based_timing u self =
    (case getitem TRAFFIC_PATTERNS (pattern self) of
       Inl e \<Rightarrow> (Raise e, self)
     | Inr prof \<Rightarrow>
         if intensity self = 0 then (Raise ZeroDivisionError, self)
         else time_sleep
                (tor_floor (tor_mode self)
                   (uniform (interval_min prof) (interval_max prof) u / intensity self))
                self)"

text \<open>
  The loop of a generator: \<^verbatim>\<open>while running: try: ... except Exception: pass\<close>.
  Each input pairs the value of the global \<^verbatim>\<open>running\<close> read at the top of the loop with
  the draws and outcomes of that iteration. A generator that has used all its inputs is
  still in its loop.
\<close>

datatype outcome =
    Returned chaosec_tool
  | Raised py_exn chaosec_tool
  | InLoop chaosec_tool
  | Hung chaosec_tool

fun noise_loop ::
  "('d \<Rightarrow> chaosec_tool \<Rightarrow> ctl \<times> chaosec_tool) \<Rightarrow> (bool \<times> 'd) list \<Rightarrow> chaosec_tool \<Rightarrow> outcome"
where
  "noise_loop body [] self = InLoop self"
| "noise_loop body ((running, d) # rest) self =
    (if \<not> running then Returned self
     else case body d self of
            (Completed, self') \<Rightarrow> noise_loop body rest self'
          | (Raise e, self') \<Rightarrow>
              if derives_from_Exception e then noise_loop body rest self' else Raised e self'
          | (Blocked, self') \<Rightarrow> Hung self')"

fun final :: "outcome \<Rightarrow> chaosec_tool" where
  "final (Returned self) = self"
| "final (Raised e self) = self"
| "final (InLoop self) = self"
| "final (Hung self) = self"

fun escaped :: "outcome \<Rightarrow> bool" where
  "escaped (Raised e self) = True"
| "escaped other = False"

fun in_loop :: "outcome \<Rightarrow> bool" where
  "in_loop (InLoop self) = True"
| "in_loop (Hung self) = True"
| "in_loop other = False"

text \<open>The draws every generator makes: the one of the gate and the one of the pacing.\<close>

record draws =
  gate_u :: real
  pace_u :: real

subsection \<open>The DNS generator\<close>

definition domains :: "string list" where
  "domains =
    [''google.com'', ''facebook.com'', ''amazon.com'', ''github.com'',
     ''wikipedia.org'', ''twitter.com'', ''instagram.com'', ''reddit.com'',
     ''netflix.com'', ''youtube.com'', ''twitch.tv'', ''apple.com'',
     ''microsoft.com'', ''yahoo.com'', ''cloudflare.com'', ''akamai.com'',
     ''gitlab.com'', ''medium.com'', ''spotify.com'', ''mozilla.org'',
     ''stackoverflow.com'', ''debian.org'', ''ubuntu.com'', ''archlinux.org'',
     ''linux.org'', ''kernel.org'', ''gnu.org'', ''python.org'',
     ''rust-lang.org'', ''golang.org'', ''nasa.gov'']"

definition subdomains :: "string list" where
  "subdomains =
    [''www'', ''mail'', ''api'', ''blog'', ''shop'', ''store'', ''dev'', ''admin'',
     ''cdn'', ''img'', ''media'', ''video'', ''static'', ''app'', ''mobile'', ''m'']"

definition qtypes :: "string list" where
  "qtypes = [''A'', ''AAAA'', ''MX'', ''TXT'', ''NS'']"

record dns_draws = draws +
  sub_u :: real
  sub_k :: nat
  dom_k :: nat
  qtype_k :: nat
  resolve_result :: "net_failure option"

definition dns_act :: "dns_draws \<Rightarrow> chaosec_tool \<Rightarrow> ctl \<times> chaosec_tool" where
  "dns_act d self =
    (let domain = (if sub_u d > 1/2
                   then choice subdomains (sub_k d) @ ''.'' @ choice domains (dom_k d)
                   else choice domains (dom_k d));
         qtype = choice qtypes (qtype_k d);
         self1 = emit (Resolve domain qtype) self
     in case resolve_result d of
          Some f \<Rightarrow> (Raise (NetworkFailure f), self1)
        | None \<Rightarrow>
            pattern_based_timing (pace_u d)
              (self1\<lparr>stats := (stats self1)\<lparr>dns := dns (stats self1) + 1\<rparr>\<rparr>))"

definition dns_iteration :: "dns_draws \<Rightarrow> chaosec_tool \<Rightarrow> ctl \<times> chaosec_tool" where
  "dns_iteration d self =
    (case getitem TRAFFIC_PATTERNS (pattern self) of
       Inl e \<Rightarrow> (Raise e, self)
     | Inr prof \<Rightarrow>
         if gate_u d > dns_ratio prof * intensity self then time_sleep (1/10) self
         else dns_act d self)"

text \<open>
  Before its loop, and outside the \<^verbatim>\<open>try\<close>, the generator constructs its resolver with
  \<^verbatim>\<open>dns.resolver.Resolver()\<close>, which reads the resolver configuration of the host and
  raises \<^verbatim>\<open>NoResolverConfiguration\<close> when the host has none (no nameserver). Nothing
  catches that exception: it ends the generator before the first iteration.
  \<open>configured\<close> says whether the host has a resolver configuration.
\<close>

definition generate_dns_noise ::
  "bool \<Rightarrow> (bool \<times> dns_draws) list \<Rightarrow> chaosec_tool \<Rightarrow> outcome" where
  "generate_dns_noise configured inputs self =
    (if \<not> configured then Raised NoResolverConfiguration self
     else noise_loop dns_iteration inputs self)"


subsection \<open>The HTTP generator\<close>

definition urls :: "string list" where
  "urls =
    [''https://httpbin.org/get'', ''https://en.wikipedia.org/wiki/Special:Random'',
     ''https://www.eff.org'', ''https://www.torproject.org'',
     ''https://www.mozilla.org'', ''https://www.kernel.org'',
     ''https://www.debian.org'', ''https://www.ubuntu.com'',
     ''https://www.archlinux.org'', ''https://www.python.org'',
     ''https://www.rust-lang.org'', ''https://www.gnu.org'',
     ''https://www.fsf.org'', ''https://www.linuxfoundation.org'',
     ''https://www.opensuse.org'', ''https://www.redhat.com'',
     ''https://www.kali.org'', ''https://www.gnome.org'']"

definition user_agents :: "string list" where
  "user_agents =
    [''Mozilla/5.0 (Windows NT 10.0; Win64; x64) AppleWebKit/537.36 (KHTML, like Gecko) Chrome/91.0.4472.124 Safari/537.36'',
     ''Mozilla/5.0 (X11; Linux x86_64; rv:89.0) Gecko/20100101 Firefox/89.0'',
     ''Mozilla/5.0 (Macintosh; Intel Mac OS X 10_15_7) AppleWebKit/605.1.15 (KHTML, like Gecko) Version/14.1.1 Safari/605.1.15'',
     ''Mozilla/5.0 (X11; Linux x86_64) AppleWebKit/537.36 (KHTML, like Gecko) Chrome/92.0.4515.107 Safari/537.36'',
     ''Mozilla/5.0 (Windows NT 10.0; Win64; x64) AppleWebKit/537.36 (KHTML, like Gecko) Chrome/92.0.4515.131 Safari/537.36 Edg/92.0.902.67'',
     ''Mozilla/5.0 (iPhone; CPU iPhone OS 14_7_1 like Mac OS X) AppleWebKit/605.1.15 (KHTML, like Gecko) Version/14.1.2 Mobile/15E148 Safari/604.1'']"

text \<open>
  \<open>now_str\<close> is \<^verbatim>\<open>str(datetime.now())\<close>, \<open>session_n\<close> is \<^verbatim>\<open>random.randint(1000, 9999)\<close>,
  \<open>request_result\<close> the outcome of the one \<^verbatim>\<open>session.get\<close> or \<^verbatim>\<open>session.post\<close>.
\<close>

record http_draws = draws +
  url_k :: nat
  agent_k :: nat
  method_u :: real
  now_str :: string
  session_n :: nat
  request_result :: "net_failure option"

definition http_act :: "http_draws \<Rightarrow> chaosec_tool \<Rightarrow> ctl \<times> chaosec_tool" where
  "http_act d self =
    (let url = choice urls (url_k d);
         agent = choice user_agents (agent_k d);
         self1 = (if method_u d > 8/10
                  then emit (HttpPost url agent
                               [(''timestamp'', now_str d), (''session'', str_nat (session_n d))] 10) self
                  else emit (HttpGet url agent 10) self)
     in case request_result d of
          Some f \<Rightarrow> (Raise (NetworkFailure f), self1)
        | None \<Rightarrow>
            pattern_based_timing (pace_u d)
              (self1\<lparr>stats := (stats self1)\<lparr>http := http (stats self1) + 1\<rparr>\<rparr>))"

definition http_iteration :: "http_draws \<Rightarrow> chaosec_tool \<Rightarrow> ctl \<times> chaosec_tool" where
  "http_iteration d self =
    (case getitem TRAFFIC_PATTERNS (pattern self) of
       Inl e \<Rightarrow> (Raise e, self)
     | Inr prof \<Rightarrow>
         if gate_u d > http_ratio prof * intensity self then time_sleep (1/10) self
         else http_act d self)"

text \<open>
  \<^verbatim>\<open>session = requests.Session()\<close>, before the loop, only builds objects in memory: it
  opens no connection and reads no configuration.
\<close>

definition generate_http_noise :: "(bool \<times> http_draws) list \<Rightarrow> chaosec_tool \<Rightarrow> outcome" where
  "generate_http_noise = noise_loop http_iteration"

subsection \<open>The TCP generator\<close>

definition tcp_common_ports :: "nat list" where
  "tcp_common_ports = [80, 443, 8080, 8443, 22, 25, 143, 993, 587, 110, 995]"

definition targets :: "string list" where
  "targets =
    [''mozilla.org'', ''kernel.org'',
     ''debian.org'', ''ubuntu.com'', ''archlinux.org'',
     ''python.org'', ''rust-lang.org'', ''golang.org'',
     ''gnu.org'', ''fsf.org'', ''linuxfoundation.org'',
     ''opensuse.org'', ''redhat.com'', ''kali.org'']"

definition crlf :: bytes where
  "crlf = [CHR 0x0D, CHR 0x0A]"

definition http_requests :: "bytes list" where
  "http_requests =
    [''GET / HTTP/1.1'' @ crlf @ ''Host: {}'' @ crlf @ ''User-Agent: Mozilla/5.0'' @ crlf @ crlf,
     ''HEAD / HTTP/1.1'' @ crlf @ ''Host: {}'' @ crlf @ ''User-Agent: Chrome/92.0'' @ crlf @ crlf,
     ''GET /index.html HTTP/1.1'' @ crlf @ ''Host: {}'' @ crlf @ ''User-Agent: Firefox/89.0'' @ crlf @ crlf,
     ''GET /about HTTP/1.1'' @ crlf @ ''Host: {}'' @ crlf @ ''User-Agent: Safari/605.1'' @ crlf @ crlf]"

text \<open>
  \<^verbatim>\<open>request.format(target.encode())\<close>, where \<^verbatim>\<open>request\<close> is one of the \<^verbatim>\<open>bytes\<close>
  literals above. In Python 3 only \<^verbatim>\<open>str\<close> has a \<^verbatim>\<open>format\<close> method: the attribute
  lookup on a \<^verbatim>\<open>bytes\<close> object raises \<^verbatim>\<open>AttributeError\<close>, before the argument is
  evaluated and before \<^verbatim>\<open>sock.send\<close> is called.
\<close>

definition bytes_format :: "bytes \<Rightarrow> string \<Rightarrow> py_exn + bytes" where
  "bytes_format request target = Inl AttributeError"

record tcp_draws = draws +
  target_k :: nat
  port_k :: nat
  tcp_socket_result :: "net_failure option"
  connect_result :: "net_failure option"
  request_k :: nat
  send_result :: "net_failure option"
  read_u :: real
  recv_result :: "net_failure option"

text \<open>The block under \<^verbatim>\<open>if port in [80, 443, 8080, 8443]\<close>.\<close>

definition tcp_http_request :: "tcp_draws \<Rightarrow> string \<Rightarrow> chaosec_tool \<Rightarrow> ctl \<times> chaosec_tool" where
  "tcp_http_request d tgt self =
    (case bytes_format (choice http_requests (request_k d)) tgt of
       Inl e \<Rightarrow> (Raise e, self)
     | Inr data \<Rightarrow>
         let self1 = emit (Send data) self
         in case send_result d of
              Some f \<Rightarrow> (Raise (NetworkFailure f), self1)
            | None \<Rightarrow>
                if read_u d > 7/10
                then (let self2 = emit (Recv 4096) self1
                      in case recv_result d of
                           Some f \<Rightarrow> (Raise (NetworkFailure f), self2)
                         | None \<Rightarrow> (Completed, self2))
                else (Completed, self1))"

definition tcp_act :: "tcp_draws \<Rightarrow> chaosec_tool \<Rightarrow> ctl \<times> chaosec_tool" where
  "tcp_act d self =
    (let tgt = choice targets (target_k d);
         port = choice tcp_common_ports (port_k d);
         self1 = emit (SocketCreate SOCK_STREAM) self
     in case tcp_socket_result d of
          Some f \<Rightarrow> (Raise (NetworkFailure f), self1)
        | None \<Rightarrow>
            let self2 = emit (Connect tgt port) (emit (SetTimeout 5) self1)
            in case connect_result d of
                 Some f \<Rightarrow> (Raise (NetworkFailure f), self2)
               | None \<Rightarrow>
                   (case (if port \<in> set [80, 443, 8080, 8443] then tcp_http_request d tgt self2
                          else (Completed, self2)) of
                      (Completed, self3) \<Rightarrow>
                        let self4 = emit Close self3
                        in pattern_based_timing (pace_u d)
                             (self4\<lparr>stats := (stats self4)\<lparr>tcp := tcp (stats self4) + 1\<rparr>\<rparr>)
                    | (Raise e, self3) \<Rightarrow> (Raise e, self3)
                    | (Blocked, self3) \<Rightarrow> (Blocked, self3)))"

definition tcp_iteration :: "tcp_draws \<Rightarrow> chaosec_tool \<Rightarrow> ctl \<times> chaosec_tool" where
  "tcp_iteration d self =
    (case getitem TRAFFIC_PATTERNS (pattern self) of
       Inl e \<Rightarrow> (Raise e, self)
     | Inr prof \<Rightarrow>
         if gate_u d > tcp_ratio prof * intensity self then time_sleep (1/10) self
         else tcp_act d self)"

definition generate_tcp_noise :: "(bool \<times> tcp_draws) list \<Rightarrow> chaosec_tool \<Rightarrow> outcome" where
  "generate_tcp_noise = noise_loop tcp_iteration"

subsection \<open>The UDP generator\<close>

definition udp_common_ports :: "nat list" where
  "udp_common_ports = [53, 123, 161, 162, 1900, 5353, 27015, 3478, 3479]"

definition ip_string :: "nat \<times> nat \<times> nat \<times> nat \<Rightarrow> string" where
  "ip_string q = (case q of (a, b, c, e) \<Rightarrow>
     str_nat a @ ''.'' @ str_nat b @ ''.'' @ str_nat c @ ''.'' @ str_nat e)"

text \<open>
  \<^verbatim>\<open>get_random_ip\<close>: \<^verbatim>\<open>while True\<close>, draw four octets with \<^verbatim>\<open>randint(1, 254)\<close> and return
  the address unless \<^verbatim>\<open>ipaddress\<close> calls it private. The draws are a list; a list
  with private addresses only is a loop that has not returned. \<open>is_private\<close> is the
  property of the \<^verbatim>\<open>ipaddress\<close> library.
\<close>

fun get_random_ip :: "(string \<Rightarrow> bool) \<Rightarrow> (nat \<times> nat \<times> nat \<times> nat) list \<Rightarrow> string option" where
  "get_random_ip is_private [] = None"
| "get_random_ip is_private (q # qs) =
    (if \<not> is_private (ip_string q) then Some (ip_string q) else get_random_ip is_private qs)"

definition dns_payload :: bytes where
  "dns_payload =
    [CHR 0x00, CHR 0x01, CHR 0x01, CHR 0x00, CHR 0x00, CHR 0x01, CHR 0x00, CHR 0x00,
     CHR 0x00, CHR 0x00, CHR 0x00, CHR 0x00, CHR 0x03] @ ''www'' @ [CHR 0x07] @ ''mozilla'' @
    [CHR 0x03] @ ''org'' @ [CHR 0x00, CHR 0x00, CHR 0x01, CHR 0x00, CHR 0x01]"

definition ntp_payload :: bytes where
  "ntp_payload = [CHR 0x1B] @ replicate 47 (CHR 0x00)"

text \<open>
  \<open>rand_len\<close> is \<^verbatim>\<open>random.randint(16, 128)\<close> and \<open>rand_bits i\<close> the \<open>i\<close>-th
  \<^verbatim>\<open>random.getrandbits(8)\<close> of the random payload.
\<close>

record udp_draws = draws +
  udp_socket_result :: "net_failure option"
  udp_port_k :: nat
  rand_len :: nat
  rand_bits :: "nat \<Rightarrow> char"
  target_u :: real
  ip_draws :: "(nat \<times> nat \<times> nat \<times> nat) list"
  sendto_result :: "net_failure option"

definition udp_send :: "udp_draws \<Rightarrow> bytes \<Rightarrow> string \<Rightarrow> nat \<Rightarrow> chaosec_tool \<Rightarrow> ctl \<times> chaosec_tool" where
  "udp_send d payload target_ip port self =
    (let self1 = emit (SendTo payload target_ip port) self
     in case sendto_result d of
          Some f \<Rightarrow> (Raise (NetworkFailure f), self1)
        | None \<Rightarrow>
            let self2 = emit Close self1
            in pattern_based_timing (pace_u d)
                 (self2\<lparr>stats := (stats self2)\<lparr>udp := udp (stats self2) + 1\<rparr>\<rparr>))"

definition udp_act :: "(string \<Rightarrow> bool) \<Rightarrow> udp_draws \<Rightarrow> chaosec_tool \<Rightarrow> ctl \<times> chaosec_tool" where
  "udp_act is_private d self =
    (let self1 = emit (SocketCreate SOCK_DGRAM) self
     in case udp_socket_result d of
          Some f \<Rightarrow> (Raise (NetworkFailure f), self1)
        | None \<Rightarrow>
            let port = choice udp_common_ports (udp_port_k d);
                payload = (if port = 53 then dns_payload
                           else if port = 123 then ntp_payload
                           else map (rand_bits d) [0..<rand_len d])
            in if target_u d > 1/2
               then (case get_random_ip is_private (ip_draws d) of
                       None \<Rightarrow> (Blocked, self1)
                     | Some target_ip \<Rightarrow> udp_send d payload target_ip port self1)
               else udp_send d payload ''8.8.8.8'' port self1)"

definition udp_iteration :: "(string \<Rightarrow> bool) \<Rightarrow> udp_draws \<Rightarrow> chaosec_tool \<Rightarrow> ctl \<times> chaosec_tool" where
  "udp_iteration is_private d self =
    (case getitem TRAFFIC_PATTERNS (pattern self) of
       Inl e \<Rightarrow> (Raise e, self)
     | Inr prof \<Rightarrow>
         if gate_u d > udp_ratio prof * intensity self then time_sleep (1/10) self
         else udp_act is_private d self)"

definition generate_udp_noise ::
  "(string \<Rightarrow> bool) \<Rightarrow> (bool \<times> udp_draws) list \<Rightarrow> chaosec_tool \<Rightarrow> outcome" where
  "generate_udp_noise is_private = noise_loop (udp_iteration is_private)"

subsection \<open>The main thread: arguments, start, stop and the interrupt handler\<close>

text \<open>The namespace \<^verbatim>\<open>parse_args\<close> returns, \<^verbatim>\<open>--intensity\<close> already converted to a float.\<close>

record args =
  dns_noise :: bool
  http_flood :: bool
  tcp_noise :: bool
  udp_noise :: bool
  arg_pattern :: string
  arg_intensity :: real
  arg_tor_mode :: bool
  verbose :: bool
  mode :: string

text \<open>
  What handles \<^verbatim>\<open>SIGINT\<close>: Python's default handler, which raises
  \<^verbatim>\<open>KeyboardInterrupt\<close> in the main thread, or the module's \<^verbatim>\<open>signal_handler\<close>.
\<close>

datatype handler = DefaultIntHandler | SignalHandler

text \<open>The tool object together with the module global \<^verbatim>\<open>running\<close> and the signal disposition.\<close>

record process = chaosec_tool +
  running :: bool
  sigint :: handler

definition init_process :: process where
  "init_process =
    \<lparr>threads = [], intensity = 1, pattern = ''browsing'', tor_mode = False,
     stats = \<lparr>dns = 0, http = 0, tcp = 0, udp = 0\<rparr>, effects = [],
     running = True, sigint = DefaultIntHandler\<rparr>"

text \<open>What happens during one \<^verbatim>\<open>time.sleep(1)\<close> of the main thread.\<close>

datatype tick = Quiet | Sigint

definition spawn :: "target \<Rightarrow> process \<Rightarrow> process" where
  "spawn t p = (emit (ThreadStart t) p)\<lparr>threads := threads p @ [t]\<rparr>"

definition show_banner :: "args \<Rightarrow> process \<Rightarrow> process" where
  "show_banner a p =
    (let p1 = emit (LogStarting (pattern p) (intensity p)) (emit PrintBanner p);
         p2 = emit (LogInfo (''Active modules: '' @
                 (if dns_noise a then ''DNS '' else []) @
                 (if http_flood a then ''HTTP '' else []) @
                 (if tcp_noise a then ''TCP '' else []) @
                 (if udp_noise a then ''UDP '' else []))) p1
     in if tor_mode p2
        then emit (LogInfo ''Tor mode: Active - Traffic will be optimized for Tor network'') p2
        else p2)"

definition stop :: "process \<Rightarrow> process" where
  "stop p =
    (let p1 = emit (LogInfo ''Stopping all noise generators...'') (p\<lparr>running := False\<rparr>);
         p2 = foldl (\<lambda>q t. emit (Join t 1) q) p1 (threads p1)
     in emit (LogInfo ''Chaosec stopped successfully'') p2)"

definition signal_handler :: "process \<Rightarrow> ctl \<times> process" where
  "signal_handler p =
    (Raise (SystemExit 0),
     emit (LogInfo ''Interrupt received, shutting down...'') (p\<lparr>running := False\<rparr>))"

text \<open>
  \<^verbatim>\<open>while running: time.sleep(1)\<close>. A main thread that has used all its ticks is still
  waiting.
\<close>

fun keep_alive :: "tick list \<Rightarrow> process \<Rightarrow> ctl \<times> process" where
  "keep_alive [] p = (if \<not> running p then (Completed, p) else (Blocked, p))"
| "keep_alive (t # ts) p =
    (if \<not> running p then (Completed, p)
     else let p1 = emit (Sleep 1) p
          in case t of
               Quiet \<Rightarrow> keep_alive ts p1
             | Sigint \<Rightarrow>
                 (case sigint p1 of
                    DefaultIntHandler \<Rightarrow> (Raise KeyboardInterrupt, p1)
                  | SignalHandler \<Rightarrow>
                      (case signal_handler p1 of
                         (Completed, p2) \<Rightarrow> keep_alive ts p2
                       | (r, p2) \<Rightarrow> (r, p2))))"

text \<open>
  \<^verbatim>\<open>start\<close>, in two parts: the statements that set the fields, show the banner and start
  the selected threads, then the test for no generator and the keep-alive loop with its
  \<^verbatim>\<open>except KeyboardInterrupt\<close>.
\<close>

definition start_threads :: "args \<Rightarrow> process \<Rightarrow> process" where
  "start_threads a p =
    (let p1 = show_banner a
                (p\<lparr>intensity := arg_intensity a, pattern := arg_pattern a,
                   tor_mode := arg_tor_mode a\<rparr>);
         p2 = (if dns_noise a
               then emit (LogInfo ''DNS noise generator active'') (spawn GenerateDns p1) else p1);
         p3 = (if http_flood a
               then emit (LogInfo ''HTTP traffic generator active'') (spawn GenerateHttp p2) else p2);
         p4 = (if tcp_noise a
               then emit (LogInfo ''TCP connection noise active'') (spawn GenerateTcp p3) else p3);
         p5 = (if udp_noise a
               then emit (LogInfo ''UDP packet noise active'') (spawn GenerateUdp p4) else p4)
     in if verbose a then spawn PrintStats p5 else p5)"

definition start :: "args \<Rightarrow> tick list \<Rightarrow> process \<Rightarrow> ctl \<times> process" where
  "start a ticks p =
    (let p6 = start_threads a p
     in if \<not> (dns_noise a \<or> http_flood a \<or> tcp_noise a \<or> udp_noise a)
        then (Completed,
              emit (LogWarning ''No noise generators selected. Use --help for options.'') p6)
        else (case keep_alive ticks p6 of
                (Raise KeyboardInterrupt, p7) \<Rightarrow> (Completed, stop p7)
              | (r, p7) \<Rightarrow> (r, p7)))"

text \<open>
  \<^verbatim>\<open>argparse\<close> rejects a value outside the \<^verbatim>\<open>choices\<close> of its option: it prints the
  usage and an error and exits with status 2.
\<close>

definition parse_args :: "args \<Rightarrow> process \<Rightarrow> ctl \<times> process" where
  "parse_args a p =
    (if arg_pattern a \<notin> set [''browsing'', ''streaming'', ''gaming'', ''chaotic'']
     then (Raise (SystemExit 2), emit (ArgparseError ''--pattern'') p)
     else if mode a \<notin> set [''standard'', ''chaotic'']
     then (Raise (SystemExit 2), emit (ArgparseError ''--mode'') p)
     else (Completed, p))"

definition new_tool :: "process \<Rightarrow> process" where
  "new_tool p =
    p\<lparr>threads := [], intensity := 1, pattern := ''browsing'', tor_mode := False,
      stats := \<lparr>dns = 0, http = 0, tcp = 0, udp = 0\<rparr>\<rparr>"

definition main :: "args \<Rightarrow> tick list \<Rightarrow> ctl \<times> process" where
  "main a ticks =
    (case parse_args a init_process of
       (Completed, p) \<Rightarrow>
         if arg_intensity a < 1/10 \<or> arg_intensity a > 10
         then (Raise (SystemExit 1), emit (LogError ''Intensity must be between 0.1 and 10.0'') p)
         else let a1 = (if mode a = ''chaotic'' \<and> arg_pattern a = ''browsing''
                        then a\<lparr>arg_pattern := ''chaotic''\<rparr> else a);
                  p1 = p\<lparr>sigint := SignalHandler\<rparr>
              in start a1 ticks (new_tool p1)
     | (r, p) \<Rightarrow> (r, p))"

text \<open>
  The status the interpreter exits with: that of \<^verbatim>\<open>SystemExit\<close>, 1 for another uncaught
  exception, 0 when \<^verbatim>\<open>main\<close> returns; none while the main thread is still waiting. The
  generator threads are daemon threads: they end with the process and are not waited for.
\<close>

fun exit_status :: "ctl \<Rightarrow> nat option" where
  "exit_status Completed = Some 0"
| "exit_status (Raise (SystemExit n)) = Some n"
| "exit_status (Raise e) = Some 1"
| "exit_status Blocked = None"

fun is_join :: "event \<Rightarrow> bool" where
  "is_join (Join t s) = True"
| "is_join ev = False"

fun is_thread_start :: "event \<Rightarrow> bool" where
  "is_thread_start (ThreadStart t) = True"
| "is_thread_start ev = False"

fun is_sleep :: "event \<Rightarrow> bool" where
  "is_sleep (Sleep t) = True"
| "is_sleep ev = False"

text \<open>The calls that put traffic on the network or prepare it.\<close>

fun is_net_call :: "event \<Rightarrow> bool" where
  "is_net_call (Resolve n q) = True"
| "is_net_call (HttpGet u a t) = True"
| "is_net_call (HttpPost u a b t) = True"
| "is_net_call (SocketCreate k) = True"
| "is_net_call (SetTimeout t) = True"
| "is_net_call (Connect h p) = True"
| "is_net_call (Send b) = True"
| "is_net_call (Recv n) = True"
| "is_net_call (SendTo b h p) = True"
| "is_net_call Close = True"
| "is_net_call ev = False"

definition all_args_off :: args where
  "all_args_off =
    \<lparr>dns_noise = False, http_flood = False, tcp_noise = False, udp_noise = False,
     arg_pattern = ''browsing'', arg_intensity = 1, arg_tor_mode = False, verbose = False,
     mode = ''standard''\<rparr>"

subsection \<open>Concrete inputs\<close>

text \<open>An iteration of the DNS generator that passes the gate and whose query times out.\<close>

definition failing_dns :: dns_draws where
  "failing_dns =
    \<lparr>gate_u = 0, pace_u = 1/2, sub_u = 0, sub_k = 0, dom_k = 0, qtype_k = 0,
     resolve_result = Some Timeout\<rparr>"

text \<open>An iteration of the DNS generator that passes the gate and whose query succeeds.\<close>

definition succeeding_dns :: dns_draws where
  "succeeding_dns =
    \<lparr>gate_u = 0, pace_u = 1/2, sub_u = 0, sub_k = 0, dom_k = 0, qtype_k = 0,
     resolve_result = None\<rparr>"

text \<open>
  An iteration of the TCP generator that passes the gate, draws the target
  \<^verbatim>\<open>mozilla.org\<close> and the port 80, and in which every socket call succeeds.
\<close>

definition http_port_tcp :: tcp_draws where
  "http_port_tcp =
    \<lparr>gate_u = 0, pace_u = 1/2, target_k = 0, port_k = 0, tcp_socket_result = None,
     connect_result = None, request_k = 0, send_result = None, read_u = 9/10,
     recv_result = None\<rparr>"

subsection \<open>Counting gate decisions\<close>

text \<open>
  The number of draws in a list for which the gate of a generator with effective ratio
  \<open>e\<close> lets the Act step run, that is, for which the test \<^verbatim>\<open>random.random() > e\<close> of the
  source is false; and the \<open>n\<close> equally spaced values \<open>0, 1/n, ..., (n-1)/n\<close> of \<open>[0,1)\<close>.
\<close>

definition gate_passes :: "real \<Rightarrow> real list \<Rightarrow> nat" where
  "gate_passes e us = length (filter (\<lambda>u. \<not> u > e) us)"

definition grid :: "nat \<Rightarrow> real list" where
  "grid n = map (\<lambda>k. real k / real n) [0..<n]"

section \<open>Properties\<close>

subsection \<open>Auxiliary facts\<close>

lemma effects_emit [simp]: "effects (emit ev s) = effects s @ [ev]"
  by (simp add: emit_def)

lemma stats_emit [simp]: "stats (emit ev s) = stats s"
  by (simp add: emit_def)

lemma pattern_emit [simp]: "pattern (emit ev s) = pattern s"
  by (simp add: emit_def)

lemma intensity_emit [simp]: "intensity (emit ev s) = intensity s"
  by (simp add: emit_def)

lemma tor_mode_emit [simp]: "tor_mode (emit ev s) = tor_mode s"
  by (simp add: emit_def)

lemma threads_emit [simp]: "threads (emit ev s) = threads s"
  by (simp add: emit_def)

lemma time_sleep_cases:
  "time_sleep t s = (Raise ValueError, s) \<or> time_sleep t s = (Completed, emit (Sleep t) s)"
  by (simp add: time_sleep_def)

lemma timing_cases:
  "(\<exists>e. pattern_based_timing u s = (Raise e, s) \<and> derives_from_Exception e \<and>
        (\<forall>f. e \<noteq> NetworkFailure f))
   \<or> (\<exists>t. pattern_based_timing u s = (Completed, emit (Sleep t) s))"
  by (auto simp: pattern_based_timing_def time_sleep_def getitem_def split: option.splits)

lemma timing_raise:
  "pattern_based_timing u s = (Raise e, s') \<Longrightarrow>
   s' = s \<and> derives_from_Exception e \<and> (\<forall>f. e \<noteq> NetworkFailure f)"
  using timing_cases [of u s] by auto

lemma timing_completed:
  "pattern_based_timing u s = (Completed, s') \<Longrightarrow> \<exists>t. s' = emit (Sleep t) s"
  using timing_cases [of u s] by auto

lemma timing_not_blocked: "pattern_based_timing u s \<noteq> (Blocked, s')"
  using timing_cases [of u s] by auto

lemma timing_stats [simp]: "stats (snd (pattern_based_timing u s)) = stats s"
  using timing_cases [of u s] by auto

lemma timing_effects:
  "\<exists>evs. effects (snd (pattern_based_timing u s)) = effects s @ evs"
  using timing_cases [of u s] by auto

lemma sleep_tenth: "time_sleep (1/10) s = (Completed, emit (Sleep (1/10)) s)"
  by (simp add: time_sleep_def)

lemma tcp_http_request_raise: "tcp_http_request d tgt s = (Raise AttributeError, s)"
  by (simp add: tcp_http_request_def bytes_format_def)

lemma dns_failure_stats:
  "dns_iteration d s = (Raise (NetworkFailure f), s') \<Longrightarrow> stats s' = stats s"
  by (auto simp: dns_iteration_def dns_act_def getitem_def sleep_tenth Let_def
      split: option.splits if_splits dest: timing_raise)

lemma http_failure_stats:
  "http_iteration d s = (Raise (NetworkFailure f), s') \<Longrightarrow> stats s' = stats s"
  by (auto simp: http_iteration_def http_act_def getitem_def sleep_tenth Let_def
      split: option.splits if_splits dest: timing_raise)

lemma tcp_failure_stats:
  "tcp_iteration d s = (Raise (NetworkFailure f), s') \<Longrightarrow> stats s' = stats s"
  by (auto simp: tcp_iteration_def tcp_act_def getitem_def sleep_tenth Let_def
      tcp_http_request_raise
      split: option.splits if_splits dest: timing_raise)

lemma udp_failure_stats:
  "udp_iteration ip d s = (Raise (NetworkFailure f), s') \<Longrightarrow> stats s' = stats s"
  by (auto simp: udp_iteration_def udp_act_def udp_send_def getitem_def sleep_tenth Let_def
      split: option.splits if_splits dest: timing_raise)

lemma dns_failing_stats:
  "resolve_result d \<noteq> None \<Longrightarrow> stats (snd (dns_iteration d s)) = stats s"
  by (auto simp: dns_iteration_def dns_act_def getitem_def sleep_tenth Let_def
      split: option.splits if_splits)

lemma http_failing_stats:
  "request_result d \<noteq> None \<Longrightarrow> stats (snd (http_iteration d s)) = stats s"
  by (auto simp: http_iteration_def http_act_def getitem_def sleep_tenth Let_def
      split: option.splits if_splits)

lemma tcp_failing_stats:
  "connect_result d \<noteq> None \<Longrightarrow> stats (snd (tcp_iteration d s)) = stats s"
  by (auto simp: tcp_iteration_def tcp_act_def getitem_def sleep_tenth Let_def
      split: option.splits if_splits)

lemma udp_failing_stats:
  "sendto_result d \<noteq> None \<Longrightarrow> stats (snd (udp_iteration ip d s)) = stats s"
  by (auto simp: udp_iteration_def udp_act_def udp_send_def getitem_def sleep_tenth Let_def
      split: option.splits if_splits)

lemma dns_raise_no_sleep:
  "dns_iteration d s = (Raise e, s') \<Longrightarrow> filter is_sleep (effects s') = filter is_sleep (effects s)"
  by (auto simp: dns_iteration_def dns_act_def getitem_def sleep_tenth Let_def
      split: option.splits if_splits dest: timing_raise)

lemma http_raise_no_sleep:
  "http_iteration d s = (Raise e, s') \<Longrightarrow> filter is_sleep (effects s') = filter is_sleep (effects s)"
  by (auto simp: http_iteration_def http_act_def getitem_def sleep_tenth Let_def
      split: option.splits if_splits dest: timing_raise)

lemma tcp_raise_no_sleep:
  "tcp_iteration d s = (Raise e, s') \<Longrightarrow> filter is_sleep (effects s') = filter is_sleep (effects s)"
  by (auto simp: tcp_iteration_def tcp_act_def getitem_def sleep_tenth Let_def
      tcp_http_request_raise
      split: option.splits if_splits dest: timing_raise)

lemma udp_raise_no_sleep:
  "udp_iteration ip d s = (Raise e, s') \<Longrightarrow> filter is_sleep (effects s') = filter is_sleep (effects s)"
  by (auto simp: udp_iteration_def udp_act_def udp_send_def getitem_def sleep_tenth Let_def
      split: option.splits if_splits dest: timing_raise)

lemma generate_dns_noise_configured:
  "generate_dns_noise True inputs self = noise_loop dns_iteration inputs self"
  by (simp add: generate_dns_noise_def)

lemma generate_dns_noise_unconfigured:
  "generate_dns_noise False inputs self = Raised NoResolverConfiguration self"
  by (simp add: generate_dns_noise_def)

lemma noise_loop_no_escape:
  assumes "\<And>d s e s'. body d s = (Raise e, s') \<Longrightarrow> derives_from_Exception e"
  shows "\<not> escaped (noise_loop body inputs s)"
proof (induction inputs arbitrary: s)
  case Nil
  show ?case by simp
next
  case (Cons x xs)
  obtain flag d where x: "x = (flag, d)" by (cases x)
  obtain r s' where b: "body d s = (r, s')" by (cases "body d s")
  show ?case
  proof (cases r)
    case Completed
    with x b Cons.IH [of s'] show ?thesis by simp
  next
    case (Raise e)
    with b assms have "derives_from_Exception e" by blast
    with x b Raise Cons.IH [of s'] show ?thesis by simp
  next
    case Blocked
    with x b show ?thesis by simp
  qed
qed

lemma noise_loop_stats:
  assumes "\<And>flag d s. (flag, d) \<in> set inputs \<Longrightarrow> stats (snd (body d s)) = stats s"
  shows "stats (final (noise_loop body inputs s)) = stats s"
  using assms
proof (induction inputs arbitrary: s)
  case Nil
  show ?case by simp
next
  case (Cons x xs)
  obtain flag d where x: "x = (flag, d)" by (cases x)
  obtain r s' where b: "body d s = (r, s')" by (cases "body d s")
  have st: "stats s' = stats s"
    using Cons.prems [of flag d s] x b by simp
  have ih: "stats (final (noise_loop body xs s')) = stats s'"
  proof (rule Cons.IH)
    fix flag' d' t
    assume "(flag', d') \<in> set xs"
    then have "(flag', d') \<in> set (x # xs)" by simp
    then show "stats (snd (body d' t)) = stats t" by (rule Cons.prems)
  qed
  show ?case
    using x b st ih by (cases r) auto
qed

lemma noise_loop_in_loop:
  assumes "\<forall>x\<in>set inputs. fst x"
  shows "escaped (noise_loop body inputs s) \<or> in_loop (noise_loop body inputs s)"
  using assms
proof (induction inputs arbitrary: s)
  case Nil
  show ?case by simp
next
  case (Cons x xs)
  obtain flag d where x: "x = (flag, d)" by (cases x)
  obtain r s' where b: "body d s = (r, s')" by (cases "body d s")
  from Cons.prems x have fl: "flag" by simp
  from Cons.prems have "\<forall>x\<in>set xs. fst x" by simp
  from Cons.IH [OF this, of s'] x b fl show ?case
    by (cases r) auto
qed

lemma noise_loop_raise_same:
  assumes "\<And>d. body d s = (Raise e, s)" and "derives_from_Exception e"
  shows "noise_loop body inputs s = (if \<forall>x\<in>set inputs. fst x then InLoop s else Returned s)"
proof (induction inputs)
  case Nil
  show ?case by simp
next
  case (Cons x xs)
  obtain flag d where x: "x = (flag, d)" by (cases x)
  show ?case using x assms Cons.IH by auto
qed

lemma dns_raise_Exception:
  "dns_iteration d s = (Raise e, s') \<Longrightarrow> derives_from_Exception e"
  by (auto simp: dns_iteration_def dns_act_def getitem_def sleep_tenth Let_def
      split: option.splits if_splits dest: timing_raise)

lemma http_raise_Exception:
  "http_iteration d s = (Raise e, s') \<Longrightarrow> derives_from_Exception e"
  by (auto simp: http_iteration_def http_act_def getitem_def sleep_tenth Let_def
      split: option.splits if_splits dest: timing_raise)

lemma tcp_raise_Exception:
  "tcp_iteration d s = (Raise e, s') \<Longrightarrow> derives_from_Exception e"
  by (auto simp: tcp_iteration_def tcp_act_def getitem_def sleep_tenth Let_def
      tcp_http_request_raise
      split: option.splits if_splits dest: timing_raise)

lemma udp_raise_Exception:
  "udp_iteration ip d s = (Raise e, s') \<Longrightarrow> derives_from_Exception e"
  by (auto simp: udp_iteration_def udp_act_def udp_send_def getitem_def sleep_tenth Let_def
      split: option.splits if_splits dest: timing_raise)

lemma loop_continues:
  "body d s = (Raise e, s') \<Longrightarrow> derives_from_Exception e \<Longrightarrow>
   noise_loop body ((True, d) # rest) s = noise_loop body rest s'"
  by simp

lemma foldl_emit_effects:
  "effects (foldl (\<lambda>q t. emit (f t) q) p ts) = effects p @ map f ts"
  by (induction ts arbitrary: p) auto

lemma foldl_emit_pattern: "pattern (foldl (\<lambda>q t. emit (f t) q) p ts) = pattern p"
  by (induction ts arbitrary: p) auto

lemma pattern_spawn [simp]: "pattern (spawn t p) = pattern p"
  by (simp add: spawn_def)

lemma pattern_show_banner [simp]: "pattern (show_banner a p) = pattern p"
  by (simp add: show_banner_def Let_def)

lemma pattern_stop [simp]: "pattern (stop p) = pattern p"
  by (simp add: stop_def Let_def foldl_emit_pattern)

lemma keep_alive_ctl:
  "keep_alive ticks p = (r, p') \<Longrightarrow>
   pattern p' = pattern p \<and>
   (r = Completed \<or> r = Blocked \<or> r = Raise (SystemExit 0) \<or>
    (r = Raise KeyboardInterrupt \<and> sigint p = DefaultIntHandler))"
proof (induction ticks arbitrary: p)
  case Nil
  then show ?case by (auto split: if_splits)
next
  case (Cons t ts)
  show ?case
  proof (cases "running p")
    case False
    with Cons.prems show ?thesis by auto
  next
    case True
    show ?thesis
    proof (cases t)
      case Quiet
      with True Cons.prems have "keep_alive ts (emit (Sleep 1) p) = (r, p')" by simp
      from Cons.IH [OF this] show ?thesis by (simp add: emit_def)
    next
      case Sigint
      with True Cons.prems show ?thesis
        by (cases "sigint p") (auto simp: signal_handler_def emit_def)
    qed
  qed
qed



lemma pattern_start_threads [simp]: "pattern (start_threads a p) = arg_pattern a"
  by (simp add: start_threads_def Let_def)

lemma start_ctl:
  "start a ticks p = (r, p') \<Longrightarrow>
   pattern p' = arg_pattern a \<and> (r = Completed \<or> r = Blocked \<or> r = Raise (SystemExit 0))"
proof -
  assume st: "start a ticks p = (r, p')"
  let ?p6 = "start_threads a p"
  show ?thesis
  proof (cases "dns_noise a \<or> http_flood a \<or> tcp_noise a \<or> udp_noise a")
    case False
    with st show ?thesis by (auto simp: start_def)
  next
    case True
    obtain r7 p7 where ka: "keep_alive ticks ?p6 = (r7, p7)" by (cases "keep_alive ticks ?p6")
    from keep_alive_ctl [OF ka] have pat: "pattern p7 = arg_pattern a"
      and r7: "r7 = Completed \<or> r7 = Blocked \<or> r7 = Raise (SystemExit 0) \<or>
               r7 = Raise KeyboardInterrupt" by auto
    from r7 st True ka pat show ?thesis by (auto simp: start_def)
  qed
qed

lemma default_interrupt_runs_stop:
  "start (all_args_off\<lparr>dns_noise := True\<rparr>) [Sigint] init_process
     = (Completed,
        init_process\<lparr>threads := [GenerateDns],
          effects := [PrintBanner, LogStarting ''browsing'' 1, LogInfo ''Active modules: DNS '',
                      ThreadStart GenerateDns, LogInfo ''DNS noise generator active'',
                      Sleep 1, LogInfo ''Stopping all noise generators...'',
                      Join GenerateDns 1, LogInfo ''Chaosec stopped successfully''],
          running := False\<rparr>)"
  by (simp add: start_def start_threads_def Let_def show_banner_def stop_def
      spawn_def emit_def all_args_off_def init_process_def)

lemma unknown_name: "name \<notin> set pattern_names \<Longrightarrow> getitem TRAFFIC_PATTERNS name = Inl KeyError"
  by (simp add: pattern_names_def getitem_def TRAFFIC_PATTERNS_def)

lemma known_name: "name \<in> set pattern_names \<Longrightarrow> \<exists>p. getitem TRAFFIC_PATTERNS name = Inr p"
  by (auto simp: pattern_names_def getitem_def TRAFFIC_PATTERNS_def)

lemma main_valid:
  assumes "1/10 \<le> arg_intensity a" and "arg_intensity a \<le> 10"
    and "arg_pattern a \<in> set pattern_names" and "mode a \<in> set [''standard'', ''chaotic'']"
  shows "main a ticks =
      start (if mode a = ''chaotic'' \<and> arg_pattern a = ''browsing''
             then a\<lparr>arg_pattern := ''chaotic''\<rparr> else a) ticks
        (new_tool (init_process\<lparr>sigint := SignalHandler\<rparr>))"
proof -
  have pa: "parse_args a init_process = (Completed, init_process)"
    using assms(3,4) by (simp add: parse_args_def pattern_names_def)
  have ni: "\<not> (arg_intensity a < 1/10 \<or> arg_intensity a > 10)"
    using assms(1,2) by simp
  show ?thesis
    unfolding main_def pa using ni by (simp add: Let_def)
qed

lemma main_invalid:
  assumes "arg_intensity a < 1/10 \<or> arg_intensity a > 10 \<or> arg_pattern a \<notin> set pattern_names"
  shows "(fst (main a ticks) = Raise (SystemExit 1) \<or> fst (main a ticks) = Raise (SystemExit 2)) \<and>
         threads (snd (main a ticks)) = [] \<and>
         filter is_thread_start (effects (snd (main a ticks))) = []"
proof (cases "parse_args a init_process = (Completed, init_process)")
  case True
  then have "arg_pattern a \<in> set pattern_names"
    by (auto simp: parse_args_def pattern_names_def split: if_splits)
  with assms have "arg_intensity a < 1/10 \<or> arg_intensity a > 10" by blast
  then show ?thesis
    unfolding main_def True by (auto simp: init_process_def emit_def)
next
  case False
  then obtain opt where "parse_args a init_process = (Raise (SystemExit 2), emit (ArgparseError opt) init_process)"
    by (auto simp: parse_args_def split: if_splits)
  then show ?thesis
    unfolding main_def by (simp add: init_process_def emit_def)
qed

lemma dns_unknown: "getitem TRAFFIC_PATTERNS (pattern s) = Inl e \<Longrightarrow> dns_iteration d s = (Raise e, s)"
  by (simp add: dns_iteration_def)

lemma http_unknown: "getitem TRAFFIC_PATTERNS (pattern s) = Inl e \<Longrightarrow> http_iteration d s = (Raise e, s)"
  by (simp add: http_iteration_def)

lemma tcp_unknown: "getitem TRAFFIC_PATTERNS (pattern s) = Inl e \<Longrightarrow> tcp_iteration d s = (Raise e, s)"
  by (simp add: tcp_iteration_def)

lemma udp_unknown:
  "getitem TRAFFIC_PATTERNS (pattern s) = Inl e \<Longrightarrow> udp_iteration ip d s = (Raise e, s)"
  by (simp add: udp_iteration_def)

lemma timing_first:
  assumes "effects s = base @ ev # tail"
  shows "\<exists>evs. effects (snd (pattern_based_timing u s)) = base @ ev # evs"
  using timing_cases [of u s] assms by auto

lemma dns_act_first:
  "\<exists>ev evs. effects (snd (dns_act d s)) = effects s @ ev # evs \<and> is_net_call ev"
proof -
  define ev where "ev =
    Resolve (if sub_u d > 1/2
             then choice subdomains (sub_k d) @ ''.'' @ choice domains (dom_k d)
             else choice domains (dom_k d))
      (choice qtypes (qtype_k d))"
  have "\<exists>evs. effects (snd (dns_act d s)) = effects s @ ev # evs"
    using timing_first [where base = "effects s" and ev = ev and tail = "[]"]
    by (auto simp: dns_act_def Let_def ev_def split: option.splits)
  moreover have "is_net_call ev" by (simp add: ev_def)
  ultimately show ?thesis by blast
qed

lemma http_act_first:
  "\<exists>ev evs. effects (snd (http_act d s)) = effects s @ ev # evs \<and> is_net_call ev"
proof -
  define ev where "ev =
    (if method_u d > 8/10
     then HttpPost (choice urls (url_k d)) (choice user_agents (agent_k d))
            [(''timestamp'', now_str d), (''session'', str_nat (session_n d))] 10
     else HttpGet (choice urls (url_k d)) (choice user_agents (agent_k d)) 10)"
  have "\<exists>evs. effects (snd (http_act d s)) = effects s @ ev # evs"
    using timing_first [where base = "effects s" and ev = ev and tail = "[]"]
    by (auto simp: http_act_def Let_def ev_def split: option.splits)
  moreover have "is_net_call ev" by (simp add: ev_def)
  ultimately show ?thesis by blast
qed

lemma tcp_act_first:
  "\<exists>evs. effects (snd (tcp_act d s)) = effects s @ SocketCreate SOCK_STREAM # evs"
  using timing_first [where base = "effects s" and ev = "SocketCreate SOCK_STREAM"]
  by (auto simp: tcp_act_def Let_def tcp_http_request_raise split: option.splits)

lemma udp_send_first:
  assumes "effects s = base @ [ev]"
  shows "\<exists>evs. effects (snd (udp_send d payload ip port s)) = base @ ev # evs"
  using timing_first [where base = base and ev = ev] assms
  by (auto simp: udp_send_def Let_def split: option.splits)

lemma udp_act_first:
  "\<exists>evs. effects (snd (udp_act ip d s)) = effects s @ SocketCreate SOCK_DGRAM # evs"
  using udp_send_first [where base = "effects s" and ev = "SocketCreate SOCK_DGRAM"]
  by (auto simp: udp_act_def Let_def split: option.splits)

lemma ratios_nonneg:
  "getitem TRAFFIC_PATTERNS name = Inr prof \<Longrightarrow>
   0 \<le> dns_ratio prof \<and> 0 \<le> http_ratio prof \<and> 0 \<le> tcp_ratio prof \<and> 0 \<le> udp_ratio prof"
  by (auto simp: getitem_def TRAFFIC_PATTERNS_def split: if_splits)


lemma gate_passes_grid:
  "gate_passes e (grid n) = card {k. k < n \<and> real k / real n \<le> e}"
proof -
  have "gate_passes e (grid n) = length (filter (\<lambda>k. real k / real n \<le> e) [0..<n])"
    by (simp add: gate_passes_def grid_def filter_map o_def not_less)
  also have "\<dots> = card {k. k < n \<and> real k / real n \<le> e}"
  proof -
    have "{x. real x / real n \<le> e} \<inter> set [0..<n] = {k. k < n \<and> real k / real n \<le> e}"
      by auto
    then show ?thesis
      by (simp add: distinct_length_filter)
  qed
  finally show ?thesis .
qed

lemma grid_all: assumes "1 \<le> e" shows "gate_passes e (grid n) = n"
proof -
  have "{k. k < n \<and> real k / real n \<le> e} = {..<n}"
  proof -
    have "real k / real n \<le> e" if "k < n" for k
    proof -
      from that have "real k / real n \<le> 1" by (simp add: divide_le_eq_1)
      with assms show ?thesis by linarith
    qed
    then show ?thesis by auto
  qed
  then show ?thesis by (simp add: gate_passes_grid)
qed

lemma grid_part:
  assumes "0 \<le> e" and "e < 1" and "0 < n"
  shows "gate_passes e (grid n) = nat \<lfloor>e * real n\<rfloor> + 1"
proof -
  let ?m = "nat \<lfloor>e * real n\<rfloor>"
  have nonneg: "0 \<le> e * real n" using assms by simp
  have lt: "e * real n < real n" using assms by simp
  have mlt: "?m < n"
  proof -
    have "\<lfloor>e * real n\<rfloor> < int n" using lt by (simp add: floor_less_iff)
    then show ?thesis using nonneg by linarith
  qed
  have "{k. k < n \<and> real k / real n \<le> e} = {..?m}"
  proof (rule set_eqI)
    fix k
    have "real k / real n \<le> e \<longleftrightarrow> real k \<le> e * real n"
      using assms(3) by (simp add: pos_divide_le_eq)
    also have "\<dots> \<longleftrightarrow> int k \<le> \<lfloor>e * real n\<rfloor>"
      by (simp add: le_floor_iff)
    also have "\<dots> \<longleftrightarrow> k \<le> ?m" using nonneg by linarith
    finally have eq: "real k / real n \<le> e \<longleftrightarrow> k \<le> ?m" .
    show "k \<in> {k. k < n \<and> real k / real n \<le> e} \<longleftrightarrow> k \<in> {..?m}"
      using eq mlt by auto
  qed
  then show ?thesis by (simp add: gate_passes_grid)
qed

lemma grid_frequency:
  assumes "0 \<le> e" and "0 < n"
  shows "real n * min 1 e \<le> real (gate_passes e (grid n)) \<and>
         real (gate_passes e (grid n)) \<le> real n * min 1 e + 1"
proof (cases "1 \<le> e")
  case True
  then show ?thesis by (simp add: grid_all min_def)
next
  case False
  then have e1: "e < 1" by simp
  have nonneg: "0 \<le> e * real n" using assms by simp
  have c: "real (gate_passes e (grid n)) = of_int \<lfloor>e * real n\<rfloor> + 1"
    using grid_part [OF assms(1) e1 assms(2)] nonneg by simp
  have "of_int \<lfloor>e * real n\<rfloor> \<le> e * real n" "e * real n < of_int \<lfloor>e * real n\<rfloor> + 1"
    by linarith+
  with c e1 show ?thesis by (simp add: min_def mult.commute)
qed

lemma timing_unfold:
  assumes "getitem TRAFFIC_PATTERNS (pattern s) = Inr prof" and "intensity s \<noteq> 0"
  shows "pattern_based_timing u s =
    (let sleep_time = uniform (interval_min prof) (interval_max prof) u / intensity s
     in if tor_mode s \<and> sleep_time < 1 then (Completed, emit (Sleep 1) s)
        else time_sleep sleep_time s)"
  using assms by (auto simp: pattern_based_timing_def tor_floor_def time_sleep_def Let_def)

lemma dns_reaches_pace:
  assumes "getitem TRAFFIC_PATTERNS (pattern self) = Inr prof"
    and "gate_u d \<le> dns_ratio prof * intensity self" and "resolve_result d = None"
  shows "\<exists>evs. filter is_sleep evs = [] \<and>
     dns_iteration d self = pattern_based_timing (pace_u d)
       (self\<lparr>effects := effects self @ evs,
             stats := (stats self)\<lparr>dns := dns (stats self) + 1\<rparr>\<rparr>)"
proof -
  let ?ev = "Resolve (if sub_u d > 1/2
             then choice subdomains (sub_k d) @ ''.'' @ choice domains (dom_k d)
             else choice domains (dom_k d))
      (choice qtypes (qtype_k d))"
  have "dns_iteration d self = pattern_based_timing (pace_u d)
       (self\<lparr>effects := effects self @ [?ev],
             stats := (stats self)\<lparr>dns := dns (stats self) + 1\<rparr>\<rparr>)"
    using assms by (simp add: dns_iteration_def dns_act_def Let_def emit_def)
  moreover have "filter is_sleep [?ev] = []" by simp
  ultimately show ?thesis by blast
qed

lemma http_reaches_pace:
  assumes "getitem TRAFFIC_PATTERNS (pattern self) = Inr prof"
    and "gate_u d \<le> http_ratio prof * intensity self" and "request_result d = None"
  shows "\<exists>evs. filter is_sleep evs = [] \<and>
     http_iteration d self = pattern_based_timing (pace_u d)
       (self\<lparr>effects := effects self @ evs,
             stats := (stats self)\<lparr>http := http (stats self) + 1\<rparr>\<rparr>)"
proof -
  let ?ev = "(if method_u d > 8/10
     then HttpPost (choice urls (url_k d)) (choice user_agents (agent_k d))
            [(''timestamp'', now_str d), (''session'', str_nat (session_n d))] 10
     else HttpGet (choice urls (url_k d)) (choice user_agents (agent_k d)) 10)"
  have "http_iteration d self = pattern_based_timing (pace_u d)
       (self\<lparr>effects := effects self @ [?ev],
             stats := (stats self)\<lparr>http := http (stats self) + 1\<rparr>\<rparr>)"
    using assms by (simp add: http_iteration_def http_act_def Let_def emit_def)
  moreover have "filter is_sleep [?ev] = []" by simp
  ultimately show ?thesis by blast
qed

lemma tcp_reaches_pace:
  assumes "getitem TRAFFIC_PATTERNS (pattern self) = Inr prof"
    and "gate_u d \<le> tcp_ratio prof * intensity self"
    and "tcp_socket_result d = None" and "connect_result d = None"
    and "choice tcp_common_ports (port_k d) \<notin> set [80, 443, 8080, 8443]"
  shows "\<exists>evs. filter is_sleep evs = [] \<and>
     tcp_iteration d self = pattern_based_timing (pace_u d)
       (self\<lparr>effects := effects self @ evs,
             stats := (stats self)\<lparr>tcp := tcp (stats self) + 1\<rparr>\<rparr>)"
proof -
  let ?evs = "[SocketCreate SOCK_STREAM, SetTimeout 5,
               Connect (choice targets (target_k d)) (choice tcp_common_ports (port_k d)), Close]"
  have "tcp_iteration d self = pattern_based_timing (pace_u d)
       (self\<lparr>effects := effects self @ ?evs,
             stats := (stats self)\<lparr>tcp := tcp (stats self) + 1\<rparr>\<rparr>)"
    using assms by (simp add: tcp_iteration_def tcp_act_def Let_def emit_def)
  moreover have "filter is_sleep ?evs = []" by simp
  ultimately show ?thesis by blast
qed

lemma udp_send_reaches_pace:
  assumes "sendto_result d = None"
  shows "udp_send d payload ip port s = pattern_based_timing (pace_u d)
       (s\<lparr>effects := effects s @ [SendTo payload ip port, Close],
           stats := (stats s)\<lparr>udp := udp (stats s) + 1\<rparr>\<rparr>)"
  using assms by (simp add: udp_send_def Let_def emit_def)

lemma udp_reaches_pace:
  assumes "getitem TRAFFIC_PATTERNS (pattern self) = Inr prof"
    and "gate_u d \<le> udp_ratio prof * intensity self"
    and "udp_socket_result d = None" and "sendto_result d = None"
    and "target_u d \<le> 1/2 \<or> get_random_ip is_private (ip_draws d) \<noteq> None"
  shows "\<exists>evs. filter is_sleep evs = [] \<and>
     udp_iteration is_private d self = pattern_based_timing (pace_u d)
       (self\<lparr>effects := effects self @ evs,
             stats := (stats self)\<lparr>udp := udp (stats self) + 1\<rparr>\<rparr>)"
proof -
  let ?port = "choice udp_common_ports (udp_port_k d)"
  let ?payload = "(if ?port = 53 then dns_payload
                   else if ?port = 123 then ntp_payload
                   else map (rand_bits d) [0..<rand_len d])"
  obtain ip where ip: "ip = (if target_u d > 1/2 then the (get_random_ip is_private (ip_draws d))
                             else ''8.8.8.8'')" by simp
  let ?evs = "[SocketCreate SOCK_DGRAM, SendTo ?payload ip ?port, Close]"
  have "udp_iteration is_private d self = pattern_based_timing (pace_u d)
       (self\<lparr>effects := effects self @ ?evs,
             stats := (stats self)\<lparr>udp := udp (stats self) + 1\<rparr>\<rparr>)"
    using assms ip
    by (auto simp: udp_iteration_def udp_act_def Let_def emit_def udp_send_reaches_pace)
  moreover have "filter is_sleep ?evs = []" by simp
  ultimately show ?thesis by blast
qed

lemma paced_result:
  assumes "getitem TRAFFIC_PATTERNS (pattern self) = Inr prof" and "intensity self \<noteq> 0"
    and "\<exists>evs. filter is_sleep evs = [] \<and>
       r = pattern_based_timing u (self\<lparr>effects := effects self @ evs, stats := st\<rparr>)"
  shows "\<exists>evs. filter is_sleep evs = [] \<and>
       r = (let s = self\<lparr>effects := effects self @ evs, stats := st\<rparr>;
                sleep_time = uniform (interval_min prof) (interval_max prof) u / intensity self
            in if tor_mode self \<and> sleep_time < 1 then (Completed, emit (Sleep 1) s)
               else time_sleep sleep_time s)"
proof -
  from assms(3) obtain evs where e: "filter is_sleep evs = []"
    and r: "r = pattern_based_timing u (self\<lparr>effects := effects self @ evs, stats := st\<rparr>)"
    by blast
  let ?s = "self\<lparr>effects := effects self @ evs, stats := st\<rparr>"
  have p: "getitem TRAFFIC_PATTERNS (pattern ?s) = Inr prof" using assms(1) by simp
  have i: "intensity ?s \<noteq> 0" using assms(2) by simp
  have "r = (let s = ?s;
                sleep_time = uniform (interval_min prof) (interval_max prof) u / intensity self
            in if tor_mode self \<and> sleep_time < 1 then (Completed, emit (Sleep 1) s)
               else time_sleep sleep_time s)"
    unfolding r timing_unfold [OF p i] by (simp add: Let_def)
  with e show ?thesis by blast
qed

subsection \<open>The profile table\<close>

text \<open>
  C6. For every pattern name of the known set (browsing, streaming, gaming, chaotic) the
  lookup in the profile table succeeds, and the profile it returns has its four
  per-protocol ratios in [0,1] and its interval minimum at most its interval maximum.
\<close>

theorem profile_lookup_valid:
  "name \<in> set pattern_names \<Longrightarrow>
   \<exists>p. getitem TRAFFIC_PATTERNS name = Inr p \<and> ratios_in_unit_interval p \<and>
       interval_min p \<le> interval_max p"
  by (auto simp: pattern_names_def getitem_def TRAFFIC_PATTERNS_def ratios_in_unit_interval_def)

theorem profile_lookup_valid_witness:
  "''gaming'' \<in> set pattern_names \<and>
   (\<exists>p. getitem TRAFFIC_PATTERNS ''gaming'' = Inr p \<and> ratios_in_unit_interval p \<and>
        interval_min p \<le> interval_max p)"
  using profile_lookup_valid [of "''gaming''"] by (simp add: pattern_names_def)

subsection \<open>Pacing\<close>

text \<open>
  C2. In the pacing block the delay is the uniform draw between the profile's interval
  bounds divided by the intensity. With Tor mode on and a delay below 1 the sleep is
  exactly 1; with Tor mode off, or a delay of at least 1, the sleep is the delay itself.
  Every iteration of each of the four generators that reaches the pacing step (the gate
  let it pass and its network calls succeeded) ends in exactly this way: after the calls
  of the Act step, none of them a sleep, and the increment of its counter, it sleeps 1
  when Tor mode is on and its delay is below 1, and its delay otherwise.
\<close>

theorem pace_tor_floor:
  assumes "getitem TRAFFIC_PATTERNS (pattern self) = Inr prof"
    and "intensity self \<noteq> 0"
    and "delay = uniform (interval_min prof) (interval_max prof) u / intensity self"
  shows "(tor_mode self \<and> delay < 1 \<longrightarrow>
            pattern_based_timing u self = (Completed, emit (Sleep 1) self)) \<and>
         (\<not> tor_mode self \<or> 1 \<le> delay \<longrightarrow>
            pattern_based_timing u self = time_sleep delay self) \<and>
         (gate_u d1 \<le> dns_ratio prof * intensity self \<and> resolve_result d1 = None \<longrightarrow>
            (\<exists>evs. filter is_sleep evs = [] \<and>
               dns_iteration d1 self =
                 (let s = self\<lparr>effects := effects self @ evs,
                                stats := (stats self)\<lparr>dns := dns (stats self) + 1\<rparr>\<rparr>;
                      sleep_time = uniform (interval_min prof) (interval_max prof) (pace_u d1)
                                     / intensity self
                  in if tor_mode self \<and> sleep_time < 1 then (Completed, emit (Sleep 1) s)
                     else time_sleep sleep_time s))) \<and>
         (gate_u d2 \<le> http_ratio prof * intensity self \<and> request_result d2 = None \<longrightarrow>
            (\<exists>evs. filter is_sleep evs = [] \<and>
               http_iteration d2 self =
                 (let s = self\<lparr>effects := effects self @ evs,
                                stats := (stats self)\<lparr>http := http (stats self) + 1\<rparr>\<rparr>;
                      sleep_time = uniform (interval_min prof) (interval_max prof) (pace_u d2)
                                     / intensity self
                  in if tor_mode self \<and> sleep_time < 1 then (Completed, emit (Sleep 1) s)
                     else time_sleep sleep_time s))) \<and>
         (gate_u d3 \<le> tcp_ratio prof * intensity self \<and> tcp_socket_result d3 = None \<and>
          connect_result d3 = None \<and>
          choice tcp_common_ports (port_k d3) \<notin> set [80, 443, 8080, 8443] \<longrightarrow>
            (\<exists>evs. filter is_sleep evs = [] \<and>
               tcp_iteration d3 self =
                 (let s = self\<lparr>effects := effects self @ evs,
                                stats := (stats self)\<lparr>tcp := tcp (stats self) + 1\<rparr>\<rparr>;
                      sleep_time = uniform (interval_min prof) (interval_max prof) (pace_u d3)
                                     / intensity self
                  in if tor_mode self \<and> sleep_time < 1 then (Completed, emit (Sleep 1) s)
                     else time_sleep sleep_time s))) \<and>
         (gate_u d4 \<le> udp_ratio prof * intensity self \<and> udp_socket_result d4 = None \<and>
          sendto_result d4 = None \<and>
          (target_u d4 \<le> 1/2 \<or> get_random_ip is_private (ip_draws d4) \<noteq> None) \<longrightarrow>
            (\<exists>evs. filter is_sleep evs = [] \<and>
               udp_iteration is_private d4 self =
                 (let s = self\<lparr>effects := effects self @ evs,
                                stats := (stats self)\<lparr>udp := udp (stats self) + 1\<rparr>\<rparr>;
                      sleep_time = uniform (interval_min prof) (interval_max prof) (pace_u d4)
                                     / intensity self
                  in if tor_mode self \<and> sleep_time < 1 then (Completed, emit (Sleep 1) s)
                     else time_sleep sleep_time s)))"
proof (intro conjI impI)
  assume "tor_mode self \<and> delay < 1"
  with assms show "pattern_based_timing u self = (Completed, emit (Sleep 1) self)"
    by (auto simp: pattern_based_timing_def tor_floor_def time_sleep_def)
next
  assume "\<not> tor_mode self \<or> 1 \<le> delay"
  with assms show "pattern_based_timing u self = time_sleep delay self"
    by (auto simp: pattern_based_timing_def tor_floor_def time_sleep_def)
next
  assume "gate_u d1 \<le> dns_ratio prof * intensity self \<and> resolve_result d1 = None"
  then show "\<exists>evs. filter is_sleep evs = [] \<and>
       dns_iteration d1 self =
         (let s = self\<lparr>effects := effects self @ evs,
                        stats := (stats self)\<lparr>dns := dns (stats self) + 1\<rparr>\<rparr>;
              sleep_time = uniform (interval_min prof) (interval_max prof) (pace_u d1)
                             / intensity self
          in if tor_mode self \<and> sleep_time < 1 then (Completed, emit (Sleep 1) s)
             else time_sleep sleep_time s)"
    by (intro paced_result [OF assms(1,2)] dns_reaches_pace [OF assms(1)]) simp_all
next
  assume "gate_u d2 \<le> http_ratio prof * intensity self \<and> request_result d2 = None"
  then show "\<exists>evs. filter is_sleep evs = [] \<and>
       http_iteration d2 self =
         (let s = self\<lparr>effects := effects self @ evs,
                        stats := (stats self)\<lparr>http := http (stats self) + 1\<rparr>\<rparr>;
              sleep_time = uniform (interval_min prof) (interval_max prof) (pace_u d2)
                             / intensity self
          in if tor_mode self \<and> sleep_time < 1 then (Completed, emit (Sleep 1) s)
             else time_sleep sleep_time s)"
    by (intro paced_result [OF assms(1,2)] http_reaches_pace [OF assms(1)]) simp_all
next
  assume "gate_u d3 \<le> tcp_ratio prof * intensity self \<and> tcp_socket_result d3 = None \<and>
          connect_result d3 = None \<and>
          choice tcp_common_ports (port_k d3) \<notin> set [80, 443, 8080, 8443]"
  then show "\<exists>evs. filter is_sleep evs = [] \<and>
       tcp_iteration d3 self =
         (let s = self\<lparr>effects := effects self @ evs,
                        stats := (stats self)\<lparr>tcp := tcp (stats self) + 1\<rparr>\<rparr>;
              sleep_time = uniform (interval_min prof) (interval_max prof) (pace_u d3)
                             / intensity self
          in if tor_mode self \<and> sleep_time < 1 then (Completed, emit (Sleep 1) s)
             else time_sleep sleep_time s)"
    by (intro paced_result [OF assms(1,2)] tcp_reaches_pace [OF assms(1)]) simp_all
next
  assume "gate_u d4 \<le> udp_ratio prof * intensity self \<and> udp_socket_result d4 = None \<and>
          sendto_result d4 = None \<and>
          (target_u d4 \<le> 1/2 \<or> get_random_ip is_private (ip_draws d4) \<noteq> None)"
  then show "\<exists>evs. filter is_sleep evs = [] \<and>
       udp_iteration is_private d4 self =
         (let s = self\<lparr>effects := effects self @ evs,
                        stats := (stats self)\<lparr>udp := udp (stats self) + 1\<rparr>\<rparr>;
              sleep_time = uniform (interval_min prof) (interval_max prof) (pace_u d4)
                             / intensity self
          in if tor_mode self \<and> sleep_time < 1 then (Completed, emit (Sleep 1) s)
             else time_sleep sleep_time s)"
    by (intro paced_result [OF assms(1,2)] udp_reaches_pace [OF assms(1)]) simp_all
qed

theorem pace_tor_floor_witness:
  "getitem TRAFFIC_PATTERNS (pattern (init_tool\<lparr>pattern := ''gaming'', tor_mode := True\<rparr>))
     = Inr \<lparr>http_ratio = 2/10, dns_ratio = 1/10, tcp_ratio = 3/10, udp_ratio = 5/10,
            interval_min = 1/10, interval_max = 1\<rparr> \<and>
   intensity (init_tool\<lparr>pattern := ''gaming'', tor_mode := True\<rparr>) \<noteq> 0 \<and>
   uniform (1/10) 1 0 / 1 < (1::real) \<and>
   pattern_based_timing 0 (init_tool\<lparr>pattern := ''gaming'', tor_mode := True\<rparr>)
     = (Completed, emit (Sleep 1) (init_tool\<lparr>pattern := ''gaming'', tor_mode := True\<rparr>)) \<and>
   gate_u succeeding_dns \<le> 1/10 * intensity (init_tool\<lparr>pattern := ''gaming'', tor_mode := True\<rparr>) \<and>
   resolve_result succeeding_dns = None \<and>
   dns_iteration succeeding_dns (init_tool\<lparr>pattern := ''gaming'', tor_mode := True\<rparr>)
     = (Completed,
        init_tool\<lparr>pattern := ''gaming'', tor_mode := True,
          effects := [Resolve ''google.com'' ''A'', Sleep 1],
          stats := \<lparr>dns = 1, http = 0, tcp = 0, udp = 0\<rparr>\<rparr>)"
proof -
  let ?T = "init_tool\<lparr>pattern := ''gaming'', tor_mode := True\<rparr>"
  let ?P = "\<lparr>http_ratio = 2/10, dns_ratio = 1/10, tcp_ratio = 3/10, udp_ratio = 5/10,
             interval_min = 1/10, interval_max = (1::real)\<rparr>"
  have h1: "getitem TRAFFIC_PATTERNS (pattern ?T) = Inr ?P"
    by (simp add: getitem_def TRAFFIC_PATTERNS_def init_tool_def)
  have h2: "intensity ?T \<noteq> 0"
    by (simp add: init_tool_def)
  have h3: "uniform (1/10) 1 0 / 1 = uniform (interval_min ?P) (interval_max ?P) 0 / intensity ?T"
    by (simp add: init_tool_def)
  have h4: "uniform (1/10) 1 0 / 1 < (1::real)"
    by (simp add: uniform_def)
  have h5: "gate_u succeeding_dns \<le> 1/10 * intensity ?T"
    by (simp add: succeeding_dns_def init_tool_def)
  have h6: "resolve_result succeeding_dns = None"
    by (simp add: succeeding_dns_def)
  note t = pace_tor_floor [OF h1 h2 h3, where ?d1.0 = succeeding_dns]
  from t h4
  have a: "pattern_based_timing 0 ?T = (Completed, emit (Sleep 1) ?T)"
    by (simp add: init_tool_def)
  from t h5 h6
  have "\<exists>evs. filter is_sleep evs = [] \<and>
       dns_iteration succeeding_dns ?T =
         (let s = ?T\<lparr>effects := effects ?T @ evs,
                      stats := (stats ?T)\<lparr>dns := dns (stats ?T) + 1\<rparr>\<rparr>;
              sleep_time = uniform (interval_min ?P) (interval_max ?P) (pace_u succeeding_dns)
                             / intensity ?T
          in if tor_mode ?T \<and> sleep_time < 1 then (Completed, emit (Sleep 1) s)
             else time_sleep sleep_time s)"
    by simp
  then have b: "dns_iteration succeeding_dns ?T
     = (Completed,
        ?T\<lparr>effects := [Resolve ''google.com'' ''A'', Sleep 1],
           stats := \<lparr>dns = 1, http = 0, tcp = 0, udp = 0\<rparr>\<rparr>)"
    by (simp add: dns_iteration_def dns_act_def succeeding_dns_def init_tool_def getitem_def
        TRAFFIC_PATTERNS_def choice_def domains_def qtypes_def emit_def
        pattern_based_timing_def tor_floor_def time_sleep_def uniform_def)
  from h1 h2 h4 a h5 h6 b show ?thesis by simp
qed

subsection \<open>Failures of the Act step\<close>

text \<open>
  C3. No exception escapes any of the four generator loops, whatever the network calls do;
  while the run flag is read as true a generator stays in its loop; an iteration that ends
  with a network failure leaves the counters as they were; and with a transport that
  fails at every query, request, connect or send the counters after the loop are those
  before it (0 from the start). For the DNS generator this is about its loop, which it
  reaches when its resolver could be constructed (\<open>configured\<close>); on a host without a
  resolver configuration the constructor's exception ends the generator before the loop
  (\<open>generate_dns_noise_unconfigured\<close>), with the counters untouched.
\<close>

theorem act_failures_caught:
  "(configured \<longrightarrow> \<not> escaped (generate_dns_noise configured di self)) \<and>
   \<not> escaped (generate_http_noise hi self) \<and>
   \<not> escaped (generate_tcp_noise ti self) \<and>
   \<not> escaped (generate_udp_noise is_private ui self) \<and>
   (configured \<and> (\<forall>x\<in>set di. fst x) \<longrightarrow> in_loop (generate_dns_noise configured di self)) \<and>
   ((\<forall>x\<in>set hi. fst x) \<longrightarrow> in_loop (generate_http_noise hi self)) \<and>
   ((\<forall>x\<in>set ti. fst x) \<longrightarrow> in_loop (generate_tcp_noise ti self)) \<and>
   ((\<forall>x\<in>set ui. fst x) \<longrightarrow> in_loop (generate_udp_noise is_private ui self)) \<and>
   (dns_iteration d1 self = (Raise (NetworkFailure f), self') \<longrightarrow> stats self' = stats self) \<and>
   (http_iteration d2 self = (Raise (NetworkFailure f), self') \<longrightarrow> stats self' = stats self) \<and>
   (tcp_iteration d3 self = (Raise (NetworkFailure f), self') \<longrightarrow> stats self' = stats self) \<and>
   (udp_iteration is_private d4 self = (Raise (NetworkFailure f), self') \<longrightarrow>
      stats self' = stats self) \<and>
   ((\<forall>x\<in>set di. resolve_result (snd x) \<noteq> None) \<longrightarrow>
      stats (final (generate_dns_noise configured di self)) = stats self) \<and>
   ((\<forall>x\<in>set hi. request_result (snd x) \<noteq> None) \<longrightarrow>
      stats (final (generate_http_noise hi self)) = stats self) \<and>
   ((\<forall>x\<in>set ti. connect_result (snd x) \<noteq> None) \<longrightarrow>
      stats (final (generate_tcp_noise ti self)) = stats self) \<and>
   ((\<forall>x\<in>set ui. sendto_result (snd x) \<noteq> None) \<longrightarrow>
      stats (final (generate_udp_noise is_private ui self)) = stats self)"
proof -
  have e0: "\<not> escaped (generate_dns_noise True di self)"
    unfolding generate_dns_noise_configured
    by (rule noise_loop_no_escape) (rule dns_raise_Exception)
  then have e1: "configured \<longrightarrow> \<not> escaped (generate_dns_noise configured di self)"
    by simp
  have e2: "\<not> escaped (generate_http_noise hi self)"
    unfolding generate_http_noise_def by (rule noise_loop_no_escape) (rule http_raise_Exception)
  have e3: "\<not> escaped (generate_tcp_noise ti self)"
    unfolding generate_tcp_noise_def by (rule noise_loop_no_escape) (rule tcp_raise_Exception)
  have e4: "\<not> escaped (generate_udp_noise is_private ui self)"
    unfolding generate_udp_noise_def by (rule noise_loop_no_escape) (rule udp_raise_Exception)
  have l1: "configured \<and> (\<forall>x\<in>set di. fst x) \<longrightarrow>
      in_loop (generate_dns_noise configured di self)"
    using e0 noise_loop_in_loop [of di dns_iteration self]
    by (auto simp: generate_dns_noise_def)
  have l2: "(\<forall>x\<in>set hi. fst x) \<longrightarrow> in_loop (generate_http_noise hi self)"
    using e2 noise_loop_in_loop [of hi http_iteration self]
    by (auto simp: generate_http_noise_def)
  have l3: "(\<forall>x\<in>set ti. fst x) \<longrightarrow> in_loop (generate_tcp_noise ti self)"
    using e3 noise_loop_in_loop [of ti tcp_iteration self]
    by (auto simp: generate_tcp_noise_def)
  have l4: "(\<forall>x\<in>set ui. fst x) \<longrightarrow> in_loop (generate_udp_noise is_private ui self)"
    using e4 noise_loop_in_loop [of ui "udp_iteration is_private" self]
    by (auto simp: generate_udp_noise_def)
  have s1: "(\<forall>x\<in>set di. resolve_result (snd x) \<noteq> None) \<longrightarrow>
      stats (final (generate_dns_noise configured di self)) = stats self"
  proof (cases configured)
    case True
    then have c: "configured = True" by simp
    show ?thesis
      unfolding c generate_dns_noise_configured
      by (intro impI noise_loop_stats dns_failing_stats) force
  next
    case False
    then show ?thesis by (simp add: generate_dns_noise_def)
  qed
  have s2: "(\<forall>x\<in>set hi. request_result (snd x) \<noteq> None) \<longrightarrow>
      stats (final (generate_http_noise hi self)) = stats self"
    unfolding generate_http_noise_def
    by (intro impI noise_loop_stats http_failing_stats) force
  have s3: "(\<forall>x\<in>set ti. connect_result (snd x) \<noteq> None) \<longrightarrow>
      stats (final (generate_tcp_noise ti self)) = stats self"
    unfolding generate_tcp_noise_def
    by (intro impI noise_loop_stats tcp_failing_stats) force
  have s4: "(\<forall>x\<in>set ui. sendto_result (snd x) \<noteq> None) \<longrightarrow>
      stats (final (generate_udp_noise is_private ui self)) = stats self"
    unfolding generate_udp_noise_def
    by (intro impI noise_loop_stats udp_failing_stats) force
  show ?thesis
    using e1 e2 e3 e4 l1 l2 l3 l4 s1 s2 s3 s4
      dns_failure_stats [of d1 self f self'] http_failure_stats [of d2 self f self']
      tcp_failure_stats [of d3 self f self'] udp_failure_stats [of is_private d4 self f self']
    by blast
qed

theorem act_failures_caught_witness:
  "resolve_result failing_dns \<noteq> None \<and>
   dns_iteration failing_dns init_tool
     = (Raise (NetworkFailure Timeout), emit (Resolve ''google.com'' ''A'') init_tool) \<and>
   \<not> escaped (generate_dns_noise True [(True, failing_dns), (True, failing_dns)] init_tool) \<and>
   in_loop (generate_dns_noise True [(True, failing_dns), (True, failing_dns)] init_tool) \<and>
   stats (final (generate_dns_noise True [(True, failing_dns), (True, failing_dns)] init_tool))
     = \<lparr>dns = 0, http = 0, tcp = 0, udp = 0\<rparr>"
proof -
  let ?di = "[(True, failing_dns), (True, failing_dns)]"
  have h1: "\<forall>x\<in>set ?di. fst x" by simp
  have h2: "\<forall>x\<in>set ?di. resolve_result (snd x) \<noteq> None" by (simp add: failing_dns_def)
  have h3: "dns_iteration failing_dns init_tool
     = (Raise (NetworkFailure Timeout), emit (Resolve ''google.com'' ''A'') init_tool)"
    by (simp add: dns_iteration_def dns_act_def failing_dns_def init_tool_def getitem_def
        TRAFFIC_PATTERNS_def choice_def domains_def qtypes_def)
  have h4: "stats init_tool = \<lparr>dns = 0, http = 0, tcp = 0, udp = 0\<rparr>"
    by (simp add: init_tool_def)
  from act_failures_caught [where configured = True and di = ?di and self = init_tool
      and ?d1.0 = failing_dns and f = Timeout and self' = "emit (Resolve ''google.com'' ''A'') init_tool"] h1 h2 h3 h4
  show ?thesis by simp
qed

subsection \<open>What follows a failed Act step\<close>

text \<open>
  With the profile \<^verbatim>\<open>chaotic\<close> at intensity 1 every draw passes the gate. On a host
  with a resolver configuration, two iterations whose query times out make their two
  queries one after the other: the generator does not sleep between the failed query and
  the next attempt.
\<close>

theorem failed_act_retried_without_pacing:
  "generate_dns_noise True [(True, failing_dns), (True, failing_dns)]
       (init_tool\<lparr>pattern := ''chaotic''\<rparr>)
     = InLoop (init_tool\<lparr>pattern := ''chaotic'',
                 effects := [Resolve ''google.com'' ''A'', Resolve ''google.com'' ''A'']\<rparr>)"
  by (simp add: generate_dns_noise_def dns_iteration_def dns_act_def failing_dns_def
      init_tool_def getitem_def TRAFFIC_PATTERNS_def choice_def domains_def qtypes_def emit_def)

text \<open>
  C4, as the code has it. The pacing block is inside the \<^verbatim>\<open>try\<close> body, after the Act
  step: an iteration that raises performs no sleep at all, and the loop goes on at once
  with the next reading of the run flag and the next gate draw. (The DNS generator is in
  its loop, so its resolver was constructed.)
\<close>

theorem failed_act_skips_pacing:
  "(dns_iteration d1 self = (Raise e, self') \<longrightarrow>
      filter is_sleep (effects self') = filter is_sleep (effects self) \<and>
      generate_dns_noise True ((True, d1) # rest1) self = generate_dns_noise True rest1 self') \<and>
   (http_iteration d2 self = (Raise e, self') \<longrightarrow>
      filter is_sleep (effects self') = filter is_sleep (effects self) \<and>
      generate_http_noise ((True, d2) # rest2) self = generate_http_noise rest2 self') \<and>
   (tcp_iteration d3 self = (Raise e, self') \<longrightarrow>
      filter is_sleep (effects self') = filter is_sleep (effects self) \<and>
      generate_tcp_noise ((True, d3) # rest3) self = generate_tcp_noise rest3 self') \<and>
   (udp_iteration is_private d4 self = (Raise e, self') \<longrightarrow>
      filter is_sleep (effects self') = filter is_sleep (effects self) \<and>
      generate_udp_noise is_private ((True, d4) # rest4) self
        = generate_udp_noise is_private rest4 self')"
proof -
  have a: "dns_iteration d1 self = (Raise e, self') \<longrightarrow>
      filter is_sleep (effects self') = filter is_sleep (effects self) \<and>
      generate_dns_noise True ((True, d1) # rest1) self = generate_dns_noise True rest1 self'"
    unfolding generate_dns_noise_configured
    using dns_raise_no_sleep [of d1 self e self'] dns_raise_Exception [of d1 self e self']
      loop_continues [of dns_iteration d1 self e self' rest1]
    by blast
  have b: "http_iteration d2 self = (Raise e, self') \<longrightarrow>
      filter is_sleep (effects self') = filter is_sleep (effects self) \<and>
      generate_http_noise ((True, d2) # rest2) self = generate_http_noise rest2 self'"
    unfolding generate_http_noise_def
    using http_raise_no_sleep [of d2 self e self'] http_raise_Exception [of d2 self e self']
      loop_continues [of http_iteration d2 self e self' rest2]
    by blast
  have c: "tcp_iteration d3 self = (Raise e, self') \<longrightarrow>
      filter is_sleep (effects self') = filter is_sleep (effects self) \<and>
      generate_tcp_noise ((True, d3) # rest3) self = generate_tcp_noise rest3 self'"
    unfolding generate_tcp_noise_def
    using tcp_raise_no_sleep [of d3 self e self'] tcp_raise_Exception [of d3 self e self']
      loop_continues [of tcp_iteration d3 self e self' rest3]
    by blast
  have d: "udp_iteration is_private d4 self = (Raise e, self') \<longrightarrow>
      filter is_sleep (effects self') = filter is_sleep (effects self) \<and>
      generate_udp_noise is_private ((True, d4) # rest4) self
        = generate_udp_noise is_private rest4 self'"
    unfolding generate_udp_noise_def
    using udp_raise_no_sleep [of is_private d4 self e self'] udp_raise_Exception [of is_private d4 self e self']
      loop_continues [of "udp_iteration is_private" d4 self e self' rest4]
    by blast
  from a b c d show ?thesis by blast
qed

theorem failed_act_skips_pacing_witness:
  "dns_iteration failing_dns init_tool
     = (Raise (NetworkFailure Timeout), emit (Resolve ''google.com'' ''A'') init_tool) \<and>
   filter is_sleep (effects (emit (Resolve ''google.com'' ''A'') init_tool))
     = filter is_sleep (effects init_tool) \<and>
   generate_dns_noise True [(True, failing_dns)] init_tool
     = generate_dns_noise True [] (emit (Resolve ''google.com'' ''A'') init_tool)"
proof -
  have h: "dns_iteration failing_dns init_tool
     = (Raise (NetworkFailure Timeout), emit (Resolve ''google.com'' ''A'') init_tool)"
    by (simp add: dns_iteration_def dns_act_def failing_dns_def init_tool_def getitem_def
        TRAFFIC_PATTERNS_def choice_def domains_def qtypes_def)
  from failed_act_skips_pacing [where ?d1.0 = failing_dns and self = init_tool
      and e = "NetworkFailure Timeout"
      and self' = "emit (Resolve ''google.com'' ''A'') init_tool" and ?rest1.0 = "[]"] h
  show ?thesis by blast
qed

subsection \<open>The TCP generator on an HTTP port\<close>

text \<open>
  C5. On port 80 with a successful connection, formatting the request raises
  \<^verbatim>\<open>AttributeError\<close>: nothing is sent or read, the socket is not closed, the counter
  is not incremented and the pacing sleep is skipped.
\<close>

theorem tcp_http_port_sends_nothing:
  "tcp_iteration http_port_tcp (init_tool\<lparr>pattern := ''chaotic''\<rparr>)
     = (Raise AttributeError,
        init_tool\<lparr>pattern := ''chaotic'',
          effects := [SocketCreate SOCK_STREAM, SetTimeout 5, Connect ''mozilla.org'' 80]\<rparr>)"
  by (simp add: tcp_iteration_def tcp_act_def tcp_http_request_raise http_port_tcp_def
      init_tool_def getitem_def TRAFFIC_PATTERNS_def choice_def targets_def
      tcp_common_ports_def emit_def)

subsection \<open>Starting with no generator selected\<close>

text \<open>
  With no generator selected but \<^verbatim>\<open>--verbose\<close> given, \<^verbatim>\<open>start\<close> has started the
  statistics thread before it tests whether a generator was selected.
\<close>

theorem nothing_enabled_verbose_spawns_reporter:
  "start (all_args_off\<lparr>verbose := True\<rparr>) [] init_process
     = (Completed,
        init_process\<lparr>threads := [PrintStats],
          effects := [PrintBanner, LogStarting ''browsing'' 1, LogInfo ''Active modules: '',
                      ThreadStart PrintStats,
                      LogWarning ''No noise generators selected. Use --help for options.'']\<rparr>)"
  by (simp add: start_def start_threads_def Let_def show_banner_def spawn_def emit_def all_args_off_def
      init_process_def)

text \<open>
  C9, as the code has it. With no generator selected \<^verbatim>\<open>start\<close> returns normally,
  whatever happens later: it starts no generator thread (only the statistics thread, when
  \<^verbatim>\<open>verbose\<close> is set), its last output is the warning, it never sleeps in the keep-alive
  loop and it leaves the run flag as it was.
\<close>

theorem nothing_enabled_returns:
  assumes "\<not> (dns_noise a \<or> http_flood a \<or> tcp_noise a \<or> udp_noise a)"
  shows "fst (start a ticks p) = Completed \<and>
         threads (snd (start a ticks p)) = threads p @ (if verbose a then [PrintStats] else []) \<and>
         filter is_thread_start (effects (snd (start a ticks p)))
           = filter is_thread_start (effects p) @
             (if verbose a then [ThreadStart PrintStats] else []) \<and>
         last (effects (snd (start a ticks p)))
           = LogWarning ''No noise generators selected. Use --help for options.'' \<and>
         filter is_sleep (effects (snd (start a ticks p))) = filter is_sleep (effects p) \<and>
         running (snd (start a ticks p)) = running p"
  using assms by (simp add: start_def start_threads_def Let_def show_banner_def spawn_def emit_def)

theorem nothing_enabled_returns_witness:
  "\<not> (dns_noise all_args_off \<or> http_flood all_args_off \<or> tcp_noise all_args_off \<or>
      udp_noise all_args_off) \<and>
   fst (start all_args_off [Quiet, Sigint] init_process) = Completed \<and>
   threads (snd (start all_args_off [Quiet, Sigint] init_process)) = [] \<and>
   filter is_thread_start (effects (snd (start all_args_off [Quiet, Sigint] init_process))) = []"
proof -
  have h: "\<not> (dns_noise all_args_off \<or> http_flood all_args_off \<or> tcp_noise all_args_off \<or>
      udp_noise all_args_off)"
    by (simp add: all_args_off_def)
  from nothing_enabled_returns [OF h, of "[Quiet, Sigint]" init_process] h
  show ?thesis by (simp add: all_args_off_def init_process_def)
qed

subsection \<open>The interrupt\<close>

text \<open>
  C8. \<^verbatim>\<open>main\<close> installs \<^verbatim>\<open>signal_handler\<close> for \<^verbatim>\<open>SIGINT\<close>. With the DNS generator
  running and an interrupt during the first sleep of the main thread, the handler clears
  the run flag and raises \<^verbatim>\<open>SystemExit(0)\<close>, which the \<^verbatim>\<open>except KeyboardInterrupt\<close> of
  \<^verbatim>\<open>start\<close> does not catch: \<^verbatim>\<open>stop\<close> is not called and no thread is joined.
\<close>

theorem sigint_exits_without_join:
  "main (all_args_off\<lparr>dns_noise := True\<rparr>) [Sigint]
     = (Raise (SystemExit 0),
        init_process\<lparr>threads := [GenerateDns],
          effects := [PrintBanner, LogStarting ''browsing'' 1, LogInfo ''Active modules: DNS '',
                      ThreadStart GenerateDns, LogInfo ''DNS noise generator active'',
                      Sleep 1, LogInfo ''Interrupt received, shutting down...''],
          running := False, sigint := SignalHandler\<rparr>)"
  by (simp add: main_def parse_args_def new_tool_def start_def start_threads_def Let_def show_banner_def
      spawn_def emit_def all_args_off_def init_process_def signal_handler_def)

subsection \<open>Validation of the configuration\<close>

text \<open>
  C7. \<^verbatim>\<open>main\<close> exits with a non-zero status, before any thread is started, when the
  intensity is below 0.1 or above 10 (so for 0.09 and 10.01) or the pattern is not one of
  the four names (so for \<^verbatim>\<open>stealth\<close>). For an intensity within the inclusive bounds
  (so for 0.1, 1 and 10) and valid choices it starts the engine, and the process then only
  ever exits with status 0.
\<close>

theorem configuration_validation:
  "(arg_intensity a < 1/10 \<or> arg_intensity a > 10 \<or> arg_pattern a \<notin> set pattern_names \<longrightarrow>
      (fst (main a ticks) = Raise (SystemExit 1) \<or> fst (main a ticks) = Raise (SystemExit 2)) \<and>
      threads (snd (main a ticks)) = [] \<and>
      filter is_thread_start (effects (snd (main a ticks))) = []) \<and>
   (1/10 \<le> arg_intensity a \<and> arg_intensity a \<le> 10 \<and> arg_pattern a \<in> set pattern_names \<and>
    mode a \<in> set [''standard'', ''chaotic''] \<longrightarrow>
      main a ticks =
        start (if mode a = ''chaotic'' \<and> arg_pattern a = ''browsing''
               then a\<lparr>arg_pattern := ''chaotic''\<rparr> else a) ticks
          (new_tool (init_process\<lparr>sigint := SignalHandler\<rparr>)) \<and>
      (exit_status (fst (main a ticks)) = None \<or> exit_status (fst (main a ticks)) = Some 0))"
proof (intro conjI impI)
  assume v: "1/10 \<le> arg_intensity a \<and> arg_intensity a \<le> 10 \<and>
    arg_pattern a \<in> set pattern_names \<and> mode a \<in> set [''standard'', ''chaotic'']"
  then show m: "main a ticks =
        start (if mode a = ''chaotic'' \<and> arg_pattern a = ''browsing''
               then a\<lparr>arg_pattern := ''chaotic''\<rparr> else a) ticks
          (new_tool (init_process\<lparr>sigint := SignalHandler\<rparr>))"
    using main_valid by blast
  obtain r p' where rp: "main a ticks = (r, p')" by (cases "main a ticks")
  with m start_ctl have "r = Completed \<or> r = Blocked \<or> r = Raise (SystemExit 0)"
    by metis
  with rp show "exit_status (fst (main a ticks)) = None \<or>
      exit_status (fst (main a ticks)) = Some 0"
    by auto
qed (use main_invalid in blast)+

theorem configuration_validation_witness:
  "fst (main (all_args_off\<lparr>dns_noise := True, arg_intensity := 9/100\<rparr>) []) = Raise (SystemExit 1) \<and>
   fst (main (all_args_off\<lparr>dns_noise := True, arg_intensity := 1001/100\<rparr>) []) = Raise (SystemExit 1) \<and>
   fst (main (all_args_off\<lparr>dns_noise := True, arg_pattern := ''stealth''\<rparr>) []) = Raise (SystemExit 2) \<and>
   threads (snd (main (all_args_off\<lparr>dns_noise := True, arg_intensity := 9/100\<rparr>) [])) = [] \<and>
   exit_status (fst (main (all_args_off\<lparr>dns_noise := True, arg_intensity := 1/10\<rparr>) [])) = None \<and>
   exit_status (fst (main (all_args_off\<lparr>dns_noise := True, arg_intensity := 1\<rparr>) [])) = None \<and>
   exit_status (fst (main (all_args_off\<lparr>dns_noise := True, arg_intensity := 10\<rparr>) [])) = None \<and>
   threads (snd (main (all_args_off\<lparr>dns_noise := True, arg_intensity := 1/10\<rparr>) [])) = [GenerateDns]"
proof -
  let ?bad = "all_args_off\<lparr>dns_noise := True, arg_intensity := 9/100\<rparr>"
  have h: "arg_intensity ?bad < 1/10" by (simp add: all_args_off_def)
  from configuration_validation [of ?bad "[]"] h
  have t: "threads (snd (main ?bad [])) = []" by blast
  show ?thesis
    using t
    by (simp add: main_def parse_args_def new_tool_def start_def start_threads_def Let_def
        show_banner_def spawn_def emit_def all_args_off_def init_process_def)
qed

subsection \<open>A pattern name outside the table\<close>

text \<open>
  C10. With a pattern name that is not in the profile table, the lookup at the gate raises
  \<^verbatim>\<open>KeyError\<close> in every iteration and the loop swallows it: each generator stays in
  its loop for as long as the run flag is read as true (and returns when it is read as
  false), with no call made and no counter changed. The DNS generator reaches its loop
  when its resolver could be constructed (\<open>configured\<close>); the exception of the constructor
  on a host without a resolver configuration has nothing to do with the pattern name. \<^verbatim>\<open>start\<close> itself stores the name
  unchecked and raises no error for it; the check is the one of \<^verbatim>\<open>argparse\<close> in
  \<^verbatim>\<open>main\<close>.
\<close>

theorem unknown_pattern_swallowed:
  assumes "name \<notin> set pattern_names" and "pattern self = name" and "arg_pattern a = name"
    and "configured"
  shows "generate_dns_noise configured di self = (if \<forall>x\<in>set di. fst x then InLoop self else Returned self) \<and>
         generate_http_noise hi self = (if \<forall>x\<in>set hi. fst x then InLoop self else Returned self) \<and>
         generate_tcp_noise ti self = (if \<forall>x\<in>set ti. fst x then InLoop self else Returned self) \<and>
         generate_udp_noise is_private ui self
           = (if \<forall>x\<in>set ui. fst x then InLoop self else Returned self) \<and>
         pattern (snd (start a ticks p)) = name \<and>
         (fst (start a ticks p) = Completed \<or> fst (start a ticks p) = Blocked \<or>
          fst (start a ticks p) = Raise (SystemExit 0))"
proof -
  have k: "getitem TRAFFIC_PATTERNS (pattern self) = Inl KeyError"
    using assms(1,2) unknown_name by simp
  have ex: "derives_from_Exception KeyError" by simp
  have c: "configured = True" using assms(4) by simp
  have g1: "generate_dns_noise configured di self
      = (if \<forall>x\<in>set di. fst x then InLoop self else Returned self)"
    unfolding c generate_dns_noise_configured
    by (rule noise_loop_raise_same [where body = dns_iteration and e = KeyError])
      (simp_all add: dns_unknown [OF k])
  have g2: "generate_http_noise hi self = (if \<forall>x\<in>set hi. fst x then InLoop self else Returned self)"
    unfolding generate_http_noise_def
    by (rule noise_loop_raise_same [where body = http_iteration and e = KeyError])
      (simp_all add: http_unknown [OF k])
  have g3: "generate_tcp_noise ti self = (if \<forall>x\<in>set ti. fst x then InLoop self else Returned self)"
    unfolding generate_tcp_noise_def
    by (rule noise_loop_raise_same [where body = tcp_iteration and e = KeyError])
      (simp_all add: tcp_unknown [OF k])
  have g4: "generate_udp_noise is_private ui self
           = (if \<forall>x\<in>set ui. fst x then InLoop self else Returned self)"
    unfolding generate_udp_noise_def
    by (rule noise_loop_raise_same [where body = "udp_iteration is_private" and e = KeyError])
      (simp_all add: udp_unknown [OF k])
  obtain r p' where rp: "start a ticks p = (r, p')" by (cases "start a ticks p")
  from start_ctl [OF rp] assms(3) rp
  have s: "pattern (snd (start a ticks p)) = name \<and>
         (fst (start a ticks p) = Completed \<or> fst (start a ticks p) = Blocked \<or>
          fst (start a ticks p) = Raise (SystemExit 0))"
    by simp
  from g1 g2 g3 g4 s show ?thesis by blast
qed

theorem unknown_pattern_swallowed_witness:
  "''stealth'' \<notin> set pattern_names \<and>
   generate_dns_noise True [(True, failing_dns), (True, failing_dns)]
       (init_tool\<lparr>pattern := ''stealth''\<rparr>)
     = InLoop (init_tool\<lparr>pattern := ''stealth''\<rparr>) \<and>
   pattern (snd (start (all_args_off\<lparr>dns_noise := True, arg_pattern := ''stealth''\<rparr>) [Quiet]
                   init_process)) = ''stealth''"
proof -
  have h1: "''stealth'' \<notin> set pattern_names" by (simp add: pattern_names_def)
  have h2: "pattern (init_tool\<lparr>pattern := ''stealth''\<rparr>) = ''stealth''" by simp
  have h3: "arg_pattern (all_args_off\<lparr>dns_noise := True, arg_pattern := ''stealth''\<rparr>) = ''stealth''"
    by simp
  from unknown_pattern_swallowed [OF h1 h2 h3 TrueI,
      where di = "[(True, failing_dns), (True, failing_dns)]" and ticks = "[Quiet]"
        and p = init_process] h1
  show ?thesis by simp
qed

subsection \<open>The gate\<close>

text \<open>
  C1. In each of the four generators, with the profile of the active pattern, an iteration
  whose draw exceeds the ratio times the intensity only sleeps the 0.1-second back-off; an
  iteration whose draw is at most that value runs the Act step, whose first call is a
  network call. For a non-negative intensity the draws of \<open>[0,1)\<close> that run the Act step are
  those up to the value clamped to \<open>[0,1]\<close>, and over \<open>n\<close> equally spaced draws the number
  of activations is within one of \<open>n\<close> times the clamped value.
\<close>

theorem gate_decision:
  assumes "getitem TRAFFIC_PATTERNS (pattern self) = Inr prof"
  shows
   "(gate_u d1 > dns_ratio prof * intensity self \<longrightarrow>
       dns_iteration d1 self = (Completed, emit (Sleep (1/10)) self)) \<and>
    (gate_u d1 \<le> dns_ratio prof * intensity self \<longrightarrow>
       dns_iteration d1 self = dns_act d1 self) \<and>
    (gate_u d2 > http_ratio prof * intensity self \<longrightarrow>
       http_iteration d2 self = (Completed, emit (Sleep (1/10)) self)) \<and>
    (gate_u d2 \<le> http_ratio prof * intensity self \<longrightarrow>
       http_iteration d2 self = http_act d2 self) \<and>
    (gate_u d3 > tcp_ratio prof * intensity self \<longrightarrow>
       tcp_iteration d3 self = (Completed, emit (Sleep (1/10)) self)) \<and>
    (gate_u d3 \<le> tcp_ratio prof * intensity self \<longrightarrow>
       tcp_iteration d3 self = tcp_act d3 self) \<and>
    (gate_u d4 > udp_ratio prof * intensity self \<longrightarrow>
       udp_iteration is_private d4 self = (Completed, emit (Sleep (1/10)) self)) \<and>
    (gate_u d4 \<le> udp_ratio prof * intensity self \<longrightarrow>
       udp_iteration is_private d4 self = udp_act is_private d4 self) \<and>
    (\<exists>ev evs. effects (snd (dns_act d1 self)) = effects self @ ev # evs \<and> is_net_call ev) \<and>
    (\<exists>ev evs. effects (snd (http_act d2 self)) = effects self @ ev # evs \<and> is_net_call ev) \<and>
    (\<exists>ev evs. effects (snd (tcp_act d3 self)) = effects self @ ev # evs \<and> is_net_call ev) \<and>
    (\<exists>ev evs. effects (snd (udp_act is_private d4 self)) = effects self @ ev # evs \<and>
       is_net_call ev) \<and>
    (0 \<le> intensity self \<longrightarrow>
       (\<forall>r \<in> {dns_ratio prof, http_ratio prof, tcp_ratio prof, udp_ratio prof}.
          {u. 0 \<le> u \<and> u < 1 \<and> \<not> u > r * intensity self}
            = {u. 0 \<le> u \<and> u < 1 \<and> u \<le> max 0 (min 1 (r * intensity self))})) \<and>
    (0 \<le> intensity self \<and> 0 < n \<longrightarrow>
       (\<forall>r \<in> {dns_ratio prof, http_ratio prof, tcp_ratio prof, udp_ratio prof}.
          real n * max 0 (min 1 (r * intensity self))
            \<le> real (gate_passes (r * intensity self) (grid n)) \<and>
          real (gate_passes (r * intensity self) (grid n))
            \<le> real n * max 0 (min 1 (r * intensity self)) + 1))"
proof -
  have g: "(gate_u d1 > dns_ratio prof * intensity self \<longrightarrow>
       dns_iteration d1 self = (Completed, emit (Sleep (1/10)) self)) \<and>
    (gate_u d1 \<le> dns_ratio prof * intensity self \<longrightarrow>
       dns_iteration d1 self = dns_act d1 self) \<and>
    (gate_u d2 > http_ratio prof * intensity self \<longrightarrow>
       http_iteration d2 self = (Completed, emit (Sleep (1/10)) self)) \<and>
    (gate_u d2 \<le> http_ratio prof * intensity self \<longrightarrow>
       http_iteration d2 self = http_act d2 self) \<and>
    (gate_u d3 > tcp_ratio prof * intensity self \<longrightarrow>
       tcp_iteration d3 self = (Completed, emit (Sleep (1/10)) self)) \<and>
    (gate_u d3 \<le> tcp_ratio prof * intensity self \<longrightarrow>
       tcp_iteration d3 self = tcp_act d3 self) \<and>
    (gate_u d4 > udp_ratio prof * intensity self \<longrightarrow>
       udp_iteration is_private d4 self = (Completed, emit (Sleep (1/10)) self)) \<and>
    (gate_u d4 \<le> udp_ratio prof * intensity self \<longrightarrow>
       udp_iteration is_private d4 self = udp_act is_private d4 self)"
    using assms
    by (simp add: dns_iteration_def http_iteration_def tcp_iteration_def udp_iteration_def
        sleep_tenth)
  have t: "\<exists>ev evs. effects (snd (tcp_act d3 self)) = effects self @ ev # evs \<and> is_net_call ev"
    using tcp_act_first [of d3 self] is_net_call.simps(4) by blast
  have u: "\<exists>ev evs. effects (snd (udp_act is_private d4 self)) = effects self @ ev # evs \<and>
       is_net_call ev"
    using udp_act_first [of is_private d4 self] is_net_call.simps(4) by blast
  have n: "0 \<le> dns_ratio prof \<and> 0 \<le> http_ratio prof \<and> 0 \<le> tcp_ratio prof \<and> 0 \<le> udp_ratio prof"
    using assms by (rule ratios_nonneg)
  have a: "0 \<le> intensity self \<longrightarrow>
       (\<forall>r \<in> {dns_ratio prof, http_ratio prof, tcp_ratio prof, udp_ratio prof}.
          {u. 0 \<le> u \<and> u < 1 \<and> \<not> u > r * intensity self}
            = {u. 0 \<le> u \<and> u < 1 \<and> u \<le> max 0 (min 1 (r * intensity self))})"
  proof (intro impI ballI)
    fix r assume i: "0 \<le> intensity self"
      and "r \<in> {dns_ratio prof, http_ratio prof, tcp_ratio prof, udp_ratio prof}"
    with n have "0 \<le> r" by auto
    with i have "0 \<le> r * intensity self" by simp
    then show "{u. 0 \<le> u \<and> u < 1 \<and> \<not> u > r * intensity self}
            = {u. 0 \<le> u \<and> u < 1 \<and> u \<le> max 0 (min 1 (r * intensity self))}"
      by auto
  qed
  have f: "0 \<le> intensity self \<and> 0 < n \<longrightarrow>
       (\<forall>r \<in> {dns_ratio prof, http_ratio prof, tcp_ratio prof, udp_ratio prof}.
          real n * max 0 (min 1 (r * intensity self))
            \<le> real (gate_passes (r * intensity self) (grid n)) \<and>
          real (gate_passes (r * intensity self) (grid n))
            \<le> real n * max 0 (min 1 (r * intensity self)) + 1)"
  proof (intro impI ballI)
    fix r assume i: "0 \<le> intensity self \<and> 0 < n"
      and "r \<in> {dns_ratio prof, http_ratio prof, tcp_ratio prof, udp_ratio prof}"
    with n have "0 \<le> r" by auto
    with i have e: "0 \<le> r * intensity self" by simp
    then have m: "max 0 (min 1 (r * intensity self)) = min 1 (r * intensity self)" by simp
    from i have "0 < n" by simp
    from grid_frequency [OF e this]
    show "real n * max 0 (min 1 (r * intensity self))
            \<le> real (gate_passes (r * intensity self) (grid n)) \<and>
          real (gate_passes (r * intensity self) (grid n))
            \<le> real n * max 0 (min 1 (r * intensity self)) + 1"
      unfolding m .
  qed
  from g t u a f dns_act_first [of d1 self] http_act_first [of d2 self] show ?thesis
    by blast
qed

theorem gate_decision_witness:
  "getitem TRAFFIC_PATTERNS (pattern init_tool)
     = Inr \<lparr>http_ratio = 6/10, dns_ratio = 3/10, tcp_ratio = 1/10, udp_ratio = 5/100,
            interval_min = 1, interval_max = 8\<rparr> \<and>
   gate_u (failing_dns\<lparr>gate_u := 1/2\<rparr>) > 3/10 * intensity init_tool \<and>
   dns_iteration (failing_dns\<lparr>gate_u := 1/2\<rparr>) init_tool
     = (Completed, emit (Sleep (1/10)) init_tool) \<and>
   gate_u failing_dns \<le> 3/10 * intensity init_tool \<and>
   dns_iteration failing_dns init_tool = dns_act failing_dns init_tool \<and>
   real (gate_passes (3/10 * intensity init_tool) (grid 10)) \<le> 10 * (3/10) + 1"
proof -
  let ?P = "\<lparr>http_ratio = 6/10, dns_ratio = 3/10, tcp_ratio = 1/10, udp_ratio = 5/100,
             interval_min = 1, interval_max = (8::real)\<rparr>"
  have h: "getitem TRAFFIC_PATTERNS (pattern init_tool) = Inr ?P"
    by (simp add: getitem_def TRAFFIC_PATTERNS_def init_tool_def)
  have i: "intensity init_tool = 1" by (simp add: init_tool_def)
  have u1: "gate_u (failing_dns\<lparr>gate_u := 1/2\<rparr>) > 3/10 * intensity init_tool"
    by (simp add: i)
  have u2: "gate_u failing_dns \<le> 3/10 * intensity init_tool"
    by (simp add: i failing_dns_def)
  from gate_decision [OF h, where ?d1.0 = "failing_dns\<lparr>gate_u := 1/2\<rparr>"] u1
  have a: "dns_iteration (failing_dns\<lparr>gate_u := 1/2\<rparr>) init_tool
     = (Completed, emit (Sleep (1/10)) init_tool)" by simp
  from gate_decision [OF h, where ?d1.0 = failing_dns] u2
  have b: "dns_iteration failing_dns init_tool = dns_act failing_dns init_tool" by simp
  from gate_decision [OF h, where n = 10]
  have c: "real (gate_passes (3/10 * intensity init_tool) (grid 10)) \<le> 10 * (3/10) + 1"
    by (simp add: i)
  from h u1 a u2 b c show ?thesis by blast
qed

end
